theory Spec2Isabelle
  imports Complex_Main "HOL-Library.AList"
begin

section \<open>Python values, errors and string built-ins\<close>

text \<open>
  The services pass around \<^verbatim>\<open>Dict[str, Any]\<close>: billing rows, query parameters, metric
  and tag collections. A value of type \<^verbatim>\<open>Any\<close> is a \<open>pyval\<close>; a dictionary with string
  keys is an association list in insertion order, read with \<open>map_of\<close> and written with
  \<open>AList.update\<close> (which keeps the position of a key that is already present, as a
  Python dict does). Floating-point numbers are idealised as reals: rounding, infinities
  and NaN are outside the model.
\<close>

datatype pyval =
    PNone
  | PBool bool
  | PInt int
  | PFloat real
  | PStr string
  | PDict "(string \<times> pyval) list"
  | PList "pyval list"

type_synonym pydict = "(string \<times> pyval) list"

text \<open>Every exception the modelled code can raise is a value; \<open>Inl\<close> is a raise.\<close>

datatype error =
    ValueError string
  | TypeError
  | AttributeError
  | KeyError
  | IndexError
  | ZeroDivisionError
  | LibraryError string

text \<open>\<^verbatim>\<open>d.get(k, default)\<close>\<close>

definition dict_get :: "('k \<times> 'v) list \<Rightarrow> 'k \<Rightarrow> 'v \<Rightarrow> 'v" where
  "dict_get d k dflt = (case map_of d k of None \<Rightarrow> dflt | Some v \<Rightarrow> v)"

text \<open>Truthiness of a value, as \<^verbatim>\<open>if v:\<close> and \<^verbatim>\<open>bool(v)\<close> read it.\<close>

fun truthy :: "pyval \<Rightarrow> bool" where
  "truthy PNone = False"
| "truthy (PBool b) = b"
| "truthy (PInt i) = (i \<noteq> 0)"
| "truthy (PFloat x) = (x \<noteq> 0)"
| "truthy (PStr s) = (s \<noteq> [])"
| "truthy (PDict d) = (d \<noteq> [])"
| "truthy (PList l) = (l \<noteq> [])"

text \<open>The number a value denotes in arithmetic (booleans are 0 and 1), if it is one.\<close>

fun num_of :: "pyval \<Rightarrow> real option" where
  "num_of (PInt i) = Some (of_int i)"
| "num_of (PFloat x) = Some x"
| "num_of (PBool b) = Some (if b then 1 else 0)"
| "num_of PNone = None"
| "num_of (PStr s) = None"
| "num_of (PDict d) = None"
| "num_of (PList l) = None"

text \<open>
  \<^verbatim>\<open>v > n\<close> for an integer literal \<open>n\<close>: numbers (and booleans, which are the
  integers 0 and 1) compare by value, anything else raises \<^verbatim>\<open>TypeError\<close>.
\<close>

fun py_gt_int :: "pyval \<Rightarrow> int \<Rightarrow> error + bool" where
  "py_gt_int (PInt i) n = Inr (n < i)"
| "py_gt_int (PFloat x) n = Inr (of_int n < x)"
| "py_gt_int (PBool b) n = Inr (n < (if b then 1 else 0))"
| "py_gt_int PNone n = Inl TypeError"
| "py_gt_int (PStr s) n = Inl TypeError"
| "py_gt_int (PDict d) n = Inl TypeError"
| "py_gt_int (PList l) n = Inl TypeError"

text \<open>\<^verbatim>\<open>s.lower()\<close> on ASCII text: the letters A to Z move to a to z.\<close>

definition lower_char :: "char \<Rightarrow> char" where
  "lower_char c =
     (case map_of (zip ''ABCDEFGHIJKLMNOPQRSTUVWXYZ'' ''abcdefghijklmnopqrstuvwxyz'') c of
        None \<Rightarrow> c
      | Some l \<Rightarrow> l)"

definition lower :: "string \<Rightarrow> string" where
  "lower s = map lower_char s"

text \<open>\<^verbatim>\<open>s.startswith(p)\<close> and the substring test \<^verbatim>\<open>p in s\<close>.\<close>

definition startswith :: "string \<Rightarrow> string \<Rightarrow> bool" where
  "startswith s p = (take (length p) s = p)"

fun contains :: "string \<Rightarrow> string \<Rightarrow> bool" where
  "contains [] p = (p = [])"
| "contains (c # cs) p = (startswith (c # cs) p \<or> contains cs p)"

section \<open>Data sources and their registry\<close>

text \<open>
  A data source owns a backing store (a pandas frame, a MongoDB collection, an HTTP
  endpoint). What the store answers to a query that has passed validation is the work of
  pandas, pymongo and httpx; it is carried by the source as a function from the query
  parameters to rows or an error. The REST source also keeps its endpoint path, which its
  validation reads.
\<close>

type_synonym backend = "pydict \<Rightarrow> error + pydict list"

datatype DataSource =
    CSVDataSource backend
  | AWSDataSource backend
  | GCPDataSource backend
  | AzureDataSource backend
  | MongoDBDataSource backend
  | RESTAPIDataSource string backend

definition dangerous_ops :: "string list" where
  "dangerous_ops = [''$where'', ''$eval'', ''$function'']"

definition dangerous_patterns :: "string list" where
  "dangerous_patterns = [''delete'', ''drop'', ''remove'', ''admin'']"

text \<open>
  The last two statements of every \<^verbatim>\<open>validate_query\<close>:
  \<^verbatim>\<open>if 'limit' in query_params and query_params['limit'] > 10000: return False\<close>,
  then \<^verbatim>\<open>return True\<close>.
\<close>

definition limit_check :: "pydict \<Rightarrow> error + bool" where
  "limit_check query_params =
     (case map_of query_params ''limit'' of
        None \<Rightarrow> Inr True
      | Some l \<Rightarrow>
          (case py_gt_int l 10000 of
             Inl e \<Rightarrow> Inl e
           | Inr too_big \<Rightarrow> if too_big then Inr False else Inr True))"

text \<open>
  \<^verbatim>\<open>validate_query\<close>, one equation per class. \<open>str_of\<close> is the built-in \<^verbatim>\<open>str\<close>,
  which the MongoDB source applies to the whole filter.
\<close>

fun validate_query :: "(pyval \<Rightarrow> string) \<Rightarrow> DataSource \<Rightarrow> pydict \<Rightarrow> error + bool" where
  "validate_query str_of (CSVDataSource b) query_params = limit_check query_params"
| "validate_query str_of (AWSDataSource b) query_params = limit_check query_params"
| "validate_query str_of (GCPDataSource b) query_params = limit_check query_params"
| "validate_query str_of (AzureDataSource b) query_params = limit_check query_params"
| "validate_query str_of (MongoDBDataSource b) query_params =
     (if (case map_of query_params ''filter'' of
            None \<Rightarrow> False
          | Some f \<Rightarrow> list_ex (\<lambda>op. contains (str_of f) op) dangerous_ops)
      then Inr False
      else limit_check query_params)"
| "validate_query str_of (RESTAPIDataSource endpoint b) query_params =
     (if list_ex (\<lambda>pattern. contains (lower endpoint) pattern) dangerous_patterns
      then Inr False
      else limit_check query_params)"

text \<open>
  \<^verbatim>\<open>query\<close>: the validation guard first, then the store. The natural number threaded
  through counts the retrievals made from backing stores, so that a query which never
  reaches its store leaves it unchanged.
\<close>

fun fetch :: "DataSource \<Rightarrow> backend" where
  "fetch (CSVDataSource b) = b"
| "fetch (AWSDataSource b) = b"
| "fetch (GCPDataSource b) = b"
| "fetch (AzureDataSource b) = b"
| "fetch (MongoDBDataSource b) = b"
| "fetch (RESTAPIDataSource endpoint b) = b"

fun validation_message :: "DataSource \<Rightarrow> string" where
  "validation_message (MongoDBDataSource b) = ''Query validation failed: Unsafe operation detected''"
| "validation_message src = ''Query validation failed''"

definition query ::
  "(pyval \<Rightarrow> string) \<Rightarrow> DataSource \<Rightarrow> pydict \<Rightarrow> nat \<Rightarrow> (error + pydict list) \<times> nat" where
  "query str_of src query_params reads =
     (case validate_query str_of src query_params of
        Inl e \<Rightarrow> (Inl e, reads)
      | Inr ok \<Rightarrow>
          if \<not> ok then (Inl (ValueError (validation_message src)), reads)
          else (fetch src query_params, Suc reads))"

record DataSourceRegistry =
  sources :: "(string \<times> DataSource) list"

definition init_registry :: DataSourceRegistry where
  "init_registry = \<lparr> sources = [] \<rparr>"

text \<open>
  \<^verbatim>\<open>register\<close> stores the source under its name; the schema it then reads for its log
  line does not touch the mapping.
\<close>

definition register :: "DataSourceRegistry \<Rightarrow> string \<Rightarrow> DataSource \<Rightarrow> DataSourceRegistry" where
  "register reg name source = reg \<lparr> sources := AList.update name source (sources reg) \<rparr>"

definition get_source :: "DataSourceRegistry \<Rightarrow> string \<Rightarrow> DataSource option" where
  "get_source reg name = map_of (sources reg) name"

definition not_found_message :: "string \<Rightarrow> string" where
  "not_found_message source_name =
     ''Data source '' @ [CHR 0x27] @ source_name @ [CHR 0x27] @ '' not found''"

definition query_source ::
  "(pyval \<Rightarrow> string) \<Rightarrow> DataSourceRegistry \<Rightarrow> string \<Rightarrow> pydict \<Rightarrow> nat
     \<Rightarrow> (error + pydict list) \<times> nat" where
  "query_source str_of reg source_name query_params reads =
     (case get_source reg source_name of
        None \<Rightarrow> (Inl (ValueError (not_found_message source_name)), reads)
      | Some source \<Rightarrow> query str_of source query_params reads)"

text \<open>
  \<^verbatim>\<open>query_all_sources\<close>: the loop over \<^verbatim>\<open>self.sources.keys()\<close>, with the
  \<^verbatim>\<open>try/except Exception\<close> around each \<^verbatim>\<open>query_source\<close>.
\<close>

fun query_all_loop ::
  "(pyval \<Rightarrow> string) \<Rightarrow> DataSourceRegistry \<Rightarrow> pydict \<Rightarrow> string list
     \<Rightarrow> (string \<times> pydict list) list \<Rightarrow> nat \<Rightarrow> (string \<times> pydict list) list \<times> nat" where
  "query_all_loop str_of reg query_params [] results reads = (results, reads)"
| "query_all_loop str_of reg query_params (name # names) results reads =
     (case query_source str_of reg name query_params reads of
        (Inr rows, reads') \<Rightarrow>
          query_all_loop str_of reg query_params names (AList.update name rows results) reads'
      | (Inl e, reads') \<Rightarrow>
          query_all_loop str_of reg query_params names (AList.update name [] results) reads')"

definition query_all_sources ::
  "(pyval \<Rightarrow> string) \<Rightarrow> DataSourceRegistry \<Rightarrow> pydict \<Rightarrow> nat
     \<Rightarrow> (string \<times> pydict list) list \<times> nat" where
  "query_all_sources str_of reg query_params reads =
     query_all_loop str_of reg query_params (map fst (sources reg)) [] reads"

section \<open>Cost normalization\<close>

text \<open>
  \<^verbatim>\<open>float(v)\<close>. A number is read as it is, a string is parsed, anything else is a
  \<^verbatim>\<open>TypeError\<close>. How Python reads a string as a float is the parameter \<open>float_str\<close>
  (\<open>None\<close> when the text is no number, which raises \<^verbatim>\<open>ValueError\<close>).
\<close>

fun py_float :: "(string \<Rightarrow> real option) \<Rightarrow> pyval \<Rightarrow> error + real" where
  "py_float float_str (PFloat x) = Inr x"
| "py_float float_str (PInt i) = Inr (of_int i)"
| "py_float float_str (PBool b) = Inr (if b then 1 else 0)"
| "py_float float_str (PStr s) =
     (case float_str s of
        None \<Rightarrow> Inl (ValueError ''could not convert string to float'')
      | Some x \<Rightarrow> Inr x)"
| "py_float float_str PNone = Inl TypeError"
| "py_float float_str (PDict d) = Inl TypeError"
| "py_float float_str (PList l) = Inl TypeError"

text \<open>
  Plain decimal text, as billing exports write costs: an optional sign, digits, and an
  optional fraction. It stands for \<open>float_str\<close> in the examples below, which use no other
  spelling of a number.
\<close>

definition digit_of :: "char \<Rightarrow> nat option" where
  "digit_of c = map_of (zip ''0123456789'' [0, 1, 2, 3, 4, 5, 6, 7, 8, 9]) c"

fun digits_value :: "nat \<Rightarrow> string \<Rightarrow> nat option" where
  "digits_value acc [] = Some acc"
| "digits_value acc (c # cs) =
     (case digit_of c of None \<Rightarrow> None | Some d \<Rightarrow> digits_value (10 * acc + d) cs)"

definition unsigned_decimal :: "string \<Rightarrow> real option" where
  "unsigned_decimal s =
     (let whole = takeWhile (\<lambda>c. c \<noteq> CHR ''.'') s;
          rest = dropWhile (\<lambda>c. c \<noteq> CHR ''.'') s;
          frac = (case rest of [] \<Rightarrow> [] | dot # ds \<Rightarrow> ds)
      in if whole = [] \<and> frac = [] then None
         else (case (digits_value 0 whole, digits_value 0 frac) of
                 (Some w, Some f) \<Rightarrow> Some (of_nat w + of_nat f / 10 ^ length frac)
               | _ \<Rightarrow> None))"

definition decimal_float :: "string \<Rightarrow> real option" where
  "decimal_float s =
     (case s of
        [] \<Rightarrow> None
      | c # cs \<Rightarrow>
          if c = CHR ''-'' then map_option uminus (unsigned_decimal cs)
          else if c = CHR ''+'' then unsigned_decimal cs
          else unsigned_decimal s)"

text \<open>\<^verbatim>\<open>s.split(sep)\<close> for a one-character separator, and \<^verbatim>\<open>xs[0]\<close>.\<close>

fun split :: "char \<Rightarrow> string \<Rightarrow> string list" where
  "split sep [] = [[]]"
| "split sep (c # cs) =
     (if c = sep then [] # split sep cs
      else (case split sep cs of [] \<Rightarrow> [[c]] | w # ws \<Rightarrow> (c # w) # ws))"

definition first_item :: "'a list \<Rightarrow> error + 'a" where
  "first_item xs = (case xs of [] \<Rightarrow> Inl IndexError | x # rest \<Rightarrow> Inr x)"

text \<open>\<^verbatim>\<open>s.replace(old, '')\<close> for a non-empty \<open>old\<close>: every occurrence goes, left to right.\<close>

function remove_all :: "string \<Rightarrow> string \<Rightarrow> string" where
  "remove_all old [] = []"
| "remove_all old (c # cs) =
     (if old \<noteq> [] \<and> startswith (c # cs) old then remove_all old (drop (length old) (c # cs))
      else c # remove_all old cs)"
  by pat_completeness auto
termination
  by (relation "measure (\<lambda>(old, s). length s)") (auto simp: startswith_def)

text \<open>
  The class \<^verbatim>\<open>UnifiedCostRecord\<close>: the constructor copies the entries of its argument,
  with a default for each missing one, and converts the cost with \<^verbatim>\<open>float\<close>.
\<close>

record UnifiedCostRecord =
  resource_id :: pyval
  cloud_provider :: pyval
  service_category :: pyval
  resource_type :: pyval
  cost_usd :: real
  usage_metrics :: pyval
  region :: pyval
  tags :: pyval
  date :: pyval
  optimization_potential :: pyval

definition UnifiedCostRecord_init ::
  "(string \<Rightarrow> real option) \<Rightarrow> pydict \<Rightarrow> error + UnifiedCostRecord" where
  "UnifiedCostRecord_init float_str data =
     (case py_float float_str (dict_get data ''cost_usd'' (PFloat 0.0)) of
        Inl e \<Rightarrow> Inl e
      | Inr cost \<Rightarrow>
          Inr \<lparr> resource_id = dict_get data ''resource_id'' (PStr []),
                cloud_provider = dict_get data ''cloud_provider'' (PStr []),
                service_category = dict_get data ''service_category'' (PStr []),
                resource_type = dict_get data ''resource_type'' (PStr []),
                cost_usd = cost,
                usage_metrics = dict_get data ''usage_metrics'' (PDict []),
                region = dict_get data ''region'' (PStr []),
                tags = dict_get data ''tags'' (PDict []),
                date = dict_get data ''date'' (PStr []),
                optimization_potential = dict_get data ''optimization_potential'' (PFloat 0.0) \<rparr>)"

text \<open>
  \<^verbatim>\<open>_categorize_service\<close> and \<^verbatim>\<open>_determine_resource_type\<close>. The first calls
  \<^verbatim>\<open>service.lower()\<close>, which only a string has; the second formats both arguments
  into one string with the built-in \<^verbatim>\<open>str\<close> (the parameter \<open>str_of\<close>).
\<close>

definition any_in :: "string list \<Rightarrow> string \<Rightarrow> bool" where
  "any_in words s = list_ex (\<lambda>x. contains s x) words"

definition categorize_service :: "pyval \<Rightarrow> string \<Rightarrow> error + string" where
  "categorize_service service prov =
     (case service of
        PStr sv \<Rightarrow>
          (let service_lower = lower sv in
           if any_in [''ec2'', ''compute'', ''vm'', ''instance'', ''virtual machine''] service_lower
             then Inr ''compute''
           else if any_in [''s3'', ''storage'', ''blob'', ''bucket''] service_lower
             then Inr ''storage''
           else if any_in [''rds'', ''database'', ''sql'', ''dynamodb'', ''cosmos''] service_lower
             then Inr ''database''
           else if any_in [''vpc'', ''network'', ''load balancer'', ''nat'', ''gateway''] service_lower
             then Inr ''network''
           else Inr ''other'')
      | _ \<Rightarrow> Inl AttributeError)"

definition determine_resource_type :: "(pyval \<Rightarrow> string) \<Rightarrow> pyval \<Rightarrow> pyval \<Rightarrow> string \<Rightarrow> string" where
  "determine_resource_type str_of service usage_type prov =
     (let combined = lower (str_of service @ '' '' @ str_of usage_type) in
      if any_in [''ec2'', ''compute engine'', ''virtual machine''] combined then ''vm''
      else if any_in [''s3'', ''storage'', ''blob''] combined then ''storage''
      else if any_in [''rds'', ''sql'', ''database''] combined then ''database''
      else if any_in [''lambda'', ''function'', ''cloud function''] combined then ''function''
      else ''other'')"

text \<open>The tag loop of \<^verbatim>\<open>normalize_aws\<close>.\<close>

fun aws_tags :: "pydict \<Rightarrow> pydict \<Rightarrow> pydict" where
  "aws_tags [] tgs = tgs"
| "aws_tags ((k, v) # rest) tgs =
     (if startswith k ''resourceTags/''
      then aws_tags rest (AList.update (remove_all ''resourceTags/'' k) v tgs)
      else aws_tags rest tgs)"

text \<open>\<^verbatim>\<open>region.split('-')[0] if region else ''\<close>\<close>

definition aws_region :: "pyval \<Rightarrow> error + pyval" where
  "aws_region rg =
     (if truthy rg then
        (case rg of
           PStr az \<Rightarrow> (case first_item (split CHR ''-'' az) of Inl e \<Rightarrow> Inl e | Inr r \<Rightarrow> Inr (PStr r))
         | _ \<Rightarrow> Inl AttributeError)
      else Inr (PStr []))"

definition normalize_aws ::
  "(string \<Rightarrow> real option) \<Rightarrow> (pyval \<Rightarrow> string) \<Rightarrow> pydict \<Rightarrow> error + UnifiedCostRecord" where
  "normalize_aws float_str str_of aws_record =
     (let rid = dict_get aws_record ''lineItem/ResourceId'' (PStr []) in
      case py_float float_str (dict_get aws_record ''lineItem/UnblendedCost'' (PFloat 0.0)) of
        Inl e \<Rightarrow> Inl e
      | Inr cost \<Rightarrow>
          (let service = dict_get aws_record ''lineItem/ProductCode'' (PStr []);
               usage_type = dict_get aws_record ''lineItem/UsageType'' (PStr []);
               rg = dict_get aws_record ''lineItem/AvailabilityZone'' (PStr []);
               dt = dict_get aws_record ''lineItem/UsageStartDate'' (PStr [])
           in case categorize_service service ''aws'' of
                Inl e \<Rightarrow> Inl e
              | Inr category \<Rightarrow>
                  (let rtype = determine_resource_type str_of service usage_type ''aws'';
                       tgs = aws_tags aws_record []
                   in case aws_region rg of
                        Inl e \<Rightarrow> Inl e
                      | Inr rg' \<Rightarrow>
                          UnifiedCostRecord_init float_str
                            [(''resource_id'', rid),
                             (''cloud_provider'', PStr ''aws''),
                             (''service_category'', PStr category),
                             (''resource_type'', PStr rtype),
                             (''cost_usd'', PFloat cost),
                             (''usage_metrics'', PDict
                                [(''usage_type'', usage_type),
                                 (''operation'', dict_get aws_record ''lineItem/Operation'' (PStr [])),
                                 (''instance_type'', dict_get aws_record ''product/InstanceType'' (PStr []))]),
                             (''region'', rg'),
                             (''tags'', PDict tgs),
                             (''date'', dt)])))"

definition normalize_gcp ::
  "(string \<Rightarrow> real option) \<Rightarrow> (pyval \<Rightarrow> string) \<Rightarrow> pydict \<Rightarrow> error + UnifiedCostRecord" where
  "normalize_gcp float_str str_of gcp_record =
     (let rid = dict_get gcp_record ''resource.name'' (PStr []) in
      case py_float float_str (dict_get gcp_record ''cost'' (PFloat 0.0)) of
        Inl e \<Rightarrow> Inl e
      | Inr cost \<Rightarrow>
          (let service = dict_get gcp_record ''service.description'' (PStr []);
               rg = dict_get gcp_record ''location.region'' (PStr []);
               dt = dict_get gcp_record ''usage_start_time'' (PStr [])
           in case categorize_service service ''gcp'' of
                Inl e \<Rightarrow> Inl e
              | Inr category \<Rightarrow>
                  (let rtype = determine_resource_type str_of service
                                 (dict_get gcp_record ''sku.description'' (PStr [])) ''gcp'';
                       tgs = [(''project'', dict_get gcp_record ''project.id'' (PStr []))]
                   in UnifiedCostRecord_init float_str
                        [(''resource_id'', rid),
                         (''cloud_provider'', PStr ''gcp''),
                         (''service_category'', PStr category),
                         (''resource_type'', PStr rtype),
                         (''cost_usd'', PFloat cost),
                         (''usage_metrics'', PDict
                            [(''sku'', dict_get gcp_record ''sku.description'' (PStr [])),
                             (''project'', dict_get gcp_record ''project.id'' (PStr []))]),
                         (''region'', rg),
                         (''tags'', PDict tgs),
                         (''date'', dt)])))"

definition normalize_azure ::
  "(string \<Rightarrow> real option) \<Rightarrow> (pyval \<Rightarrow> string) \<Rightarrow> pydict \<Rightarrow> error + UnifiedCostRecord" where
  "normalize_azure float_str str_of azure_record =
     (let rid = dict_get azure_record ''ResourceId'' (PStr []) in
      case py_float float_str (dict_get azure_record ''Cost'' (PFloat 0.0)) of
        Inl e \<Rightarrow> Inl e
      | Inr cost \<Rightarrow>
          (let service = dict_get azure_record ''ServiceName'' (PStr []);
               rg = dict_get azure_record ''ResourceLocation'' (PStr []);
               dt = dict_get azure_record ''Date'' (PStr [])
           in case categorize_service service ''azure'' of
                Inl e \<Rightarrow> Inl e
              | Inr category \<Rightarrow>
                  (let rtype = determine_resource_type str_of service
                                 (dict_get azure_record ''MeterCategory'' (PStr [])) ''azure'';
                       tgs = [(''subscription'', dict_get azure_record ''SubscriptionId'' (PStr []))]
                   in UnifiedCostRecord_init float_str
                        [(''resource_id'', rid),
                         (''cloud_provider'', PStr ''azure''),
                         (''service_category'', PStr category),
                         (''resource_type'', PStr rtype),
                         (''cost_usd'', PFloat cost),
                         (''usage_metrics'', PDict
                            [(''meter_category'', dict_get azure_record ''MeterCategory'' (PStr [])),
                             (''resource_group'', dict_get azure_record ''ResourceGroup'' (PStr []))]),
                         (''region'', rg),
                         (''tags'', PDict tgs),
                         (''date'', dt)])))"

text \<open>
  \<^verbatim>\<open>normalize_csv\<close>. The dict literal evaluates \<^verbatim>\<open>float(csv_record.get('cost_usd', 0.0))\<close>
  before the constructor runs.
\<close>

definition normalize_csv ::
  "(string \<Rightarrow> real option) \<Rightarrow> pydict \<Rightarrow> string \<Rightarrow> error + UnifiedCostRecord" where
  "normalize_csv float_str csv_record prov =
     (case py_float float_str (dict_get csv_record ''cost_usd'' (PFloat 0.0)) of
        Inl e \<Rightarrow> Inl e
      | Inr cost \<Rightarrow>
          UnifiedCostRecord_init float_str
            [(''resource_id'', dict_get csv_record ''resource_id'' (PStr [])),
             (''cloud_provider'', PStr prov),
             (''service_category'', dict_get csv_record ''service_category'' (PStr [])),
             (''resource_type'', dict_get csv_record ''resource_type'' (PStr [])),
             (''cost_usd'', PFloat cost),
             (''usage_metrics'', dict_get csv_record ''usage_metrics'' (PDict [])),
             (''region'', dict_get csv_record ''region'' (PStr [])),
             (''tags'', dict_get csv_record ''tags'' (PDict [])),
             (''date'', dict_get csv_record ''date'' (PStr []))])"

text \<open>
  \<^verbatim>\<open>normalize_batch\<close>: the provider picks the normalizer, and a row whose normalizer
  raises is logged and left out.
\<close>

definition normalize_one ::
  "(string \<Rightarrow> real option) \<Rightarrow> (pyval \<Rightarrow> string) \<Rightarrow> string \<Rightarrow> pydict \<Rightarrow> error + UnifiedCostRecord" where
  "normalize_one float_str str_of prov rec =
     (if prov = ''aws'' then normalize_aws float_str str_of rec
      else if prov = ''gcp'' then normalize_gcp float_str str_of rec
      else if prov = ''azure'' then normalize_azure float_str str_of rec
      else normalize_csv float_str rec prov)"

fun normalize_batch ::
  "(string \<Rightarrow> real option) \<Rightarrow> (pyval \<Rightarrow> string) \<Rightarrow> pydict list \<Rightarrow> string \<Rightarrow> UnifiedCostRecord list" where
  "normalize_batch float_str str_of [] prov = []"
| "normalize_batch float_str str_of (rec # records) prov =
     (case normalize_one float_str str_of prov rec of
        Inl e \<Rightarrow> normalize_batch float_str str_of records prov
      | Inr normalized \<Rightarrow> normalized # normalize_batch float_str str_of records prov)"

section \<open>Cost analysis\<close>

text \<open>
  Sequencing of computations that may raise: an exception in the first ends the whole.
\<close>

definition seq :: "error + 'a \<Rightarrow> ('a \<Rightarrow> error + 'b) \<Rightarrow> error + 'b" where
  "seq m f = (case m of Inl e \<Rightarrow> Inl e | Inr x \<Rightarrow> f x)"

text \<open>
  \<^verbatim>\<open>v.get(k, default)\<close> and \<^verbatim>\<open>v.lower()\<close> on a value of type \<^verbatim>\<open>Any\<close>: only a dict has
  the first, only a string the second.
\<close>

fun py_get_or :: "pyval \<Rightarrow> string \<Rightarrow> pyval \<Rightarrow> error + pyval" where
  "py_get_or (PDict d) k dflt = Inr (dict_get d k dflt)"
| "py_get_or v k dflt = Inl AttributeError"

fun py_lower :: "pyval \<Rightarrow> error + string" where
  "py_lower (PStr s) = Inr (lower s)"
| "py_lower v = Inl AttributeError"

text \<open>
  Keys of a \<^verbatim>\<open>defaultdict\<close>. Dicts and lists cannot be hashed (\<^verbatim>\<open>TypeError\<close>); two
  keys are the same key when Python's \<^verbatim>\<open>==\<close> holds: numbers and booleans by value,
  other values by identity of content. A group keeps the key it was created with and the
  order of creation.
\<close>

fun hashable :: "pyval \<Rightarrow> bool" where
  "hashable (PDict d) = False"
| "hashable (PList l) = False"
| "hashable v = True"

definition key_eq :: "pyval \<Rightarrow> pyval \<Rightarrow> bool" where
  "key_eq a b =
     (case (num_of a, num_of b) of
        (Some x, Some y) \<Rightarrow> x = y
      | (None, None) \<Rightarrow> a = b
      | _ \<Rightarrow> False)"

fun group_add :: "('k \<Rightarrow> 'k \<Rightarrow> bool) \<Rightarrow> 'k \<Rightarrow> 'v \<Rightarrow> ('k \<times> 'v list) list \<Rightarrow> ('k \<times> 'v list) list" where
  "group_add same k v [] = [(k, [v])]"
| "group_add same k v ((k', vs) # rest) =
     (if same k' k then (k', vs @ [v]) # rest else (k', vs) # group_add same k v rest)"

record Opportunity =
  opp_type :: string
  opp_resource_id :: pyval
  opp_cloud_provider :: pyval
  current_cost :: real
  potential_savings :: real
  recommendation :: string
  priority :: string
  price_reduction_pct :: "real option"
  action_required :: "string option"

definition total_of :: "UnifiedCostRecord list \<Rightarrow> real" where
  "total_of rs = sum_list (map cost_usd rs)"

subsection \<open>Idle resources\<close>

fun idle_groups ::
  "UnifiedCostRecord list \<Rightarrow> (pyval \<times> UnifiedCostRecord list) list
     \<Rightarrow> error + (pyval \<times> UnifiedCostRecord list) list" where
  "idle_groups [] by_resource = Inr by_resource"
| "idle_groups (r # rs) by_resource =
     (if truthy (resource_id r) then
        (if hashable (resource_id r)
         then idle_groups rs (group_add key_eq (resource_id r) r by_resource)
         else Inl TypeError)
      else idle_groups rs by_resource)"

definition mentions_usage :: "(pyval \<Rightarrow> string) \<Rightarrow> pyval \<Rightarrow> bool" where
  "mentions_usage str_of v =
     (contains (lower (str_of v)) ''cpu'' \<or> contains (lower (str_of v)) ''utilization'')"

text \<open>The outer \<^verbatim>\<open>any\<close> stops at the first record that mentions usage.\<close>

fun has_usage :: "(pyval \<Rightarrow> string) \<Rightarrow> UnifiedCostRecord list \<Rightarrow> error + bool" where
  "has_usage str_of [] = Inr False"
| "has_usage str_of (r # rs) =
     (if truthy (usage_metrics r) then
        (case usage_metrics r of
           PDict d \<Rightarrow>
             if list_ex (mentions_usage str_of) (map snd d) then Inr True else has_usage str_of rs
         | _ \<Rightarrow> Inl AttributeError)
      else has_usage str_of rs)"

fun idle_scan ::
  "(pyval \<Rightarrow> string) \<Rightarrow> (pyval \<times> UnifiedCostRecord list) list \<Rightarrow> Opportunity list
     \<Rightarrow> error + Opportunity list" where
  "idle_scan str_of [] opps = Inr opps"
| "idle_scan str_of ((rid, resource_records) # rest) opps =
     (let tc = total_of resource_records in
      seq (has_usage str_of resource_records) (\<lambda>used.
        if \<not> used \<and> tc > 10 then
          (case resource_records of
             [] \<Rightarrow> Inl IndexError
           | r0 # others \<Rightarrow>
               idle_scan str_of rest
                 (opps @
                  [\<lparr> opp_type = ''idle_resource'', opp_resource_id = rid,
                     opp_cloud_provider = cloud_provider r0,
                     current_cost = tc, potential_savings = tc * 0.9,
                     recommendation = ''Review resource usage. Consider terminating if unused.'',
                     priority = (if tc > 100 then ''high'' else ''medium''),
                     price_reduction_pct = None, action_required = None \<rparr>]))
        else idle_scan str_of rest opps))"

definition find_idle_resources ::
  "(pyval \<Rightarrow> string) \<Rightarrow> UnifiedCostRecord list \<Rightarrow> error + Opportunity list" where
  "find_idle_resources str_of records =
     seq (idle_groups records []) (\<lambda>by_resource. idle_scan str_of by_resource [])"

subsection \<open>Over-provisioned resources\<close>

fun over_provisioned_loop ::
  "UnifiedCostRecord list \<Rightarrow> Opportunity list \<Rightarrow> error + Opportunity list" where
  "over_provisioned_loop [] opps = Inr opps"
| "over_provisioned_loop (r # rs) opps =
     (if resource_type r = PStr ''vm'' \<and> cost_usd r > 50 then
        seq (py_get_or (usage_metrics r) ''instance_type'' (PStr [])) (\<lambda>itype.
        seq (py_lower itype) (\<lambda>itype_lower.
          if any_in [''xlarge'', ''2xlarge'', ''4xlarge'', ''8xlarge''] itype_lower then
            over_provisioned_loop rs
              (opps @
               [\<lparr> opp_type = ''over_provisioned'', opp_resource_id = resource_id r,
                  opp_cloud_provider = cloud_provider r,
                  current_cost = cost_usd r, potential_savings = cost_usd r * 0.3,
                  recommendation =
                    ''Consider downsizing '' @ (case itype of PStr s \<Rightarrow> s | _ \<Rightarrow> [])
                      @ '' to smaller instance type'',
                  priority = ''medium'',
                  price_reduction_pct = None, action_required = None \<rparr>])
          else over_provisioned_loop rs opps))
      else over_provisioned_loop rs opps)"

definition find_over_provisioned :: "UnifiedCostRecord list \<Rightarrow> error + Opportunity list" where
  "find_over_provisioned records = over_provisioned_loop records []"

subsection \<open>Unattached storage\<close>

fun unattached_loop ::
  "(pyval \<Rightarrow> string) \<Rightarrow> UnifiedCostRecord list \<Rightarrow> Opportunity list \<Rightarrow> Opportunity list" where
  "unattached_loop str_of [] opps = opps"
| "unattached_loop str_of (r # rs) opps =
     (if resource_type r = PStr ''storage'' \<and> cost_usd r > 5 then
        (let is_attached =
               (truthy (tags r) \<or> contains (lower (str_of (resource_id r))) ''attached'')
         in if \<not> is_attached then
              unattached_loop str_of rs
                (opps @
                 [\<lparr> opp_type = ''unattached_storage'', opp_resource_id = resource_id r,
                    opp_cloud_provider = cloud_provider r,
                    current_cost = cost_usd r, potential_savings = cost_usd r,
                    recommendation = ''Delete unattached storage volume'',
                    priority = ''medium'',
                    price_reduction_pct = None, action_required = None \<rparr>])
            else unattached_loop str_of rs opps)
      else unattached_loop str_of rs opps)"

definition find_unattached_storage ::
  "(pyval \<Rightarrow> string) \<Rightarrow> UnifiedCostRecord list \<Rightarrow> Opportunity list" where
  "find_unattached_storage str_of records = unattached_loop str_of records []"

subsection \<open>Reserved-instance candidates\<close>

fun reserved_groups ::
  "(pyval \<Rightarrow> string) \<Rightarrow> UnifiedCostRecord list \<Rightarrow> (string \<times> UnifiedCostRecord list) list
     \<Rightarrow> error + (string \<times> UnifiedCostRecord list) list" where
  "reserved_groups str_of [] by_instance = Inr by_instance"
| "reserved_groups str_of (r # rs) by_instance =
     (if resource_type r = PStr ''vm'' then
        seq (py_get_or (usage_metrics r) ''instance_type'' (PStr [])) (\<lambda>itype.
          reserved_groups str_of rs
            (group_add (=)
               (str_of (cloud_provider r) @ '':'' @ str_of itype @ '':'' @ str_of (region r))
               r by_instance))
      else reserved_groups str_of rs by_instance)"

fun reserved_scan ::
  "(string \<times> UnifiedCostRecord list) list \<Rightarrow> Opportunity list \<Rightarrow> error + Opportunity list" where
  "reserved_scan [] opps = Inr opps"
| "reserved_scan ((k, instance_records) # rest) opps =
     (let tc = total_of instance_records in
      if tc > 100 \<and> length instance_records > 20 then
        (case instance_records of
           [] \<Rightarrow> Inl IndexError
         | r0 # others \<Rightarrow>
             reserved_scan rest
               (opps @
                [\<lparr> opp_type = ''reserved_instance'', opp_resource_id = PStr k,
                   opp_cloud_provider = cloud_provider r0,
                   current_cost = tc, potential_savings = tc * 0.4,
                   recommendation =
                     ''Consider purchasing reserved instances for consistent workloads'',
                   priority = (if tc > 500 then ''high'' else ''medium''),
                   price_reduction_pct = None, action_required = None \<rparr>]))
      else reserved_scan rest opps)"

definition find_reserved_instance_opportunities ::
  "(pyval \<Rightarrow> string) \<Rightarrow> UnifiedCostRecord list \<Rightarrow> error + Opportunity list" where
  "find_reserved_instance_opportunities str_of records =
     seq (reserved_groups str_of records []) (\<lambda>by_instance. reserved_scan by_instance [])"

subsection \<open>Region optimization\<close>

fun region_group_add ::
  "string \<Rightarrow> pyval \<Rightarrow> UnifiedCostRecord
     \<Rightarrow> (string \<times> (pyval \<times> UnifiedCostRecord list) list) list
     \<Rightarrow> (string \<times> (pyval \<times> UnifiedCostRecord list) list) list" where
  "region_group_add k rg r [] = [(k, [(rg, [r])])]"
| "region_group_add k rg r ((k', regions) # rest) =
     (if k' = k then (k', group_add key_eq rg r regions) # rest
      else (k', regions) # region_group_add k rg r rest)"

fun region_groups ::
  "(pyval \<Rightarrow> string) \<Rightarrow> UnifiedCostRecord list
     \<Rightarrow> (string \<times> (pyval \<times> UnifiedCostRecord list) list) list
     \<Rightarrow> error + (string \<times> (pyval \<times> UnifiedCostRecord list) list) list" where
  "region_groups str_of [] by_service = Inr by_service"
| "region_groups str_of (r # rs) by_service =
     (if hashable (region r) then
        region_groups str_of rs
          (region_group_add (str_of (service_category r) @ '':'' @ str_of (resource_type r))
             (region r) r by_service)
      else Inl TypeError)"

text \<open>\<^verbatim>\<open>max(items, key=...)\<close> and \<^verbatim>\<open>min(items, key=...)\<close> keep the first of equal items.\<close>

fun first_max :: "'a \<times> real \<Rightarrow> ('a \<times> real) list \<Rightarrow> 'a \<times> real" where
  "first_max best [] = best"
| "first_max best (x # xs) = first_max (if snd x > snd best then x else best) xs"

fun first_min :: "'a \<times> real \<Rightarrow> ('a \<times> real) list \<Rightarrow> 'a \<times> real" where
  "first_min best [] = best"
| "first_min best (x # xs) = first_min (if snd x < snd best then x else best) xs"

fun region_scan ::
  "(pyval \<Rightarrow> string) \<Rightarrow> (string \<times> (pyval \<times> UnifiedCostRecord list) list) list
     \<Rightarrow> Opportunity list \<Rightarrow> Opportunity list" where
  "region_scan str_of [] opps = opps"
| "region_scan str_of ((service_key, regions) # rest) opps =
     (if length regions < 2 then region_scan str_of rest opps
      else
        (case map (\<lambda>(rg, rs). (rg, total_of rs)) regions of
           [] \<Rightarrow> region_scan str_of rest opps
         | c # cs \<Rightarrow>
             (let max_cost_region = first_max c cs;
                  min_cost_region = first_min c cs
              in if snd max_cost_region > snd min_cost_region * 1.2 then
                   region_scan str_of rest
                     (opps @
                      [\<lparr> opp_type = ''region_optimization'', opp_resource_id = PStr service_key,
                         opp_cloud_provider = PStr ''multi'',
                         current_cost = snd max_cost_region,
                         potential_savings = (snd max_cost_region - snd min_cost_region) * 0.8,
                         recommendation =
                           ''Consider migrating from '' @ str_of (fst max_cost_region)
                             @ '' to '' @ str_of (fst min_cost_region),
                         priority = ''low'',
                         price_reduction_pct = None, action_required = None \<rparr>])
                 else region_scan str_of rest opps)))"

definition find_region_optimizations ::
  "(pyval \<Rightarrow> string) \<Rightarrow> UnifiedCostRecord list \<Rightarrow> error + Opportunity list" where
  "find_region_optimizations str_of records =
     seq (region_groups str_of records []) (\<lambda>by_service. Inr (region_scan str_of by_service []))"

subsection \<open>Price changes and spot instances\<close>

text \<open>
  The table \<^verbatim>\<open>price_reductions\<close>: key, \<^verbatim>\<open>reduction_pct\<close> (as a number and as the
  text the recommendation prints) and \<^verbatim>\<open>new_discount\<close>.
\<close>

definition price_reductions :: "(string \<times> real \<times> string \<times> string) list" where
  "price_reductions =
     [(''aws:m5.xlarge'', 15, ''15'', ''Savings Plans available''),
      (''aws:t3.large'', 10, ''10'', ''Spot instances 60% cheaper''),
      (''gcp:n1-standard-4'', 20, ''20'', ''Committed Use Discounts''),
      (''azure:Standard_D4s_v3'', 12, ''12'', ''Reserved Instances 40% off'')]"

fun price_groups ::
  "(pyval \<Rightarrow> string) \<Rightarrow> UnifiedCostRecord list \<Rightarrow> (string \<times> UnifiedCostRecord list) list
     \<Rightarrow> error + (string \<times> UnifiedCostRecord list) list" where
  "price_groups str_of [] by_instance_type = Inr by_instance_type"
| "price_groups str_of (r # rs) by_instance_type =
     (if resource_type r = PStr ''vm'' then
        seq (py_get_or (usage_metrics r) ''instance_type'' PNone) (\<lambda>itype.
          if truthy itype then
            price_groups str_of rs
              (group_add (=) (str_of (cloud_provider r) @ '':'' @ str_of itype) r by_instance_type)
          else price_groups str_of rs by_instance_type)
      else price_groups str_of rs by_instance_type)"

text \<open>\<^verbatim>\<open>provider, instance_type = key.split(':', 1)\<close>\<close>

definition split_once :: "char \<Rightarrow> string \<Rightarrow> error + string \<times> string" where
  "split_once sep s =
     (case dropWhile (\<lambda>c. c \<noteq> sep) s of
        [] \<Rightarrow> Inl (ValueError ''not enough values to unpack'')
      | c # rest \<Rightarrow> Inr (takeWhile (\<lambda>c. c \<noteq> sep) s, rest))"

fun price_scan ::
  "(string \<times> UnifiedCostRecord list) list \<Rightarrow> Opportunity list \<Rightarrow> error + Opportunity list" where
  "price_scan [] opps = Inr opps"
| "price_scan ((k, records_list) # rest) opps =
     (case map_of price_reductions (lower k) of
        None \<Rightarrow> price_scan rest opps
      | Some (pct, pct_text, new_discount) \<Rightarrow>
          (let tc = total_of records_list;
               saving = tc * (pct / 100)
           in if saving > 50 then
                seq (split_once CHR '':'' k) (\<lambda>(prov, itype).
                  price_scan rest
                    (opps @
                     [\<lparr> opp_type = ''price_change_opportunity'',
                        opp_resource_id = PStr (prov @ '':'' @ itype),
                        opp_cloud_provider = PStr prov,
                        current_cost = tc, potential_savings = saving,
                        recommendation =
                          ''Take advantage of '' @ new_discount @ ''. Price reduced by ''
                            @ pct_text @ ''%'',
                        priority = (if saving > 200 then ''high'' else ''medium''),
                        price_reduction_pct = Some pct,
                        action_required =
                          Some ''Switch to discounted pricing or enroll in discount program'' \<rparr>]))
              else price_scan rest opps))"

fun spot_loop ::
  "(pyval \<Rightarrow> string) \<Rightarrow> UnifiedCostRecord list \<Rightarrow> Opportunity list \<Rightarrow> error + Opportunity list" where
  "spot_loop str_of [] opps = Inr opps"
| "spot_loop str_of (r # rs) opps =
     (if resource_type r = PStr ''vm'' \<and> cost_usd r > 100 then
        seq (py_get_or (usage_metrics r) ''instance_type'' (PStr [])) (\<lambda>itype.
          if \<not> contains (lower (str_of (resource_id r))) ''spot''
             \<and> \<not> contains (lower (str_of itype)) ''spot''
          then
            (let spot_savings = cost_usd r * 0.7 in
             if spot_savings > 50 then
               spot_loop str_of rs
                 (opps @
                  [\<lparr> opp_type = ''spot_instance_opportunity'', opp_resource_id = resource_id r,
                     opp_cloud_provider = cloud_provider r,
                     current_cost = cost_usd r, potential_savings = spot_savings,
                     recommendation =
                       ''Consider switching to spot instances for fault-tolerant workloads. Save up to 70%'',
                     priority = ''medium'',
                     price_reduction_pct = Some 70,
                     action_required =
                       Some ''Evaluate workload fault tolerance and migrate to spot instances'' \<rparr>])
             else spot_loop str_of rs opps)
          else spot_loop str_of rs opps)
      else spot_loop str_of rs opps)"

definition find_price_change_opportunities ::
  "(pyval \<Rightarrow> string) \<Rightarrow> UnifiedCostRecord list \<Rightarrow> error + Opportunity list" where
  "find_price_change_opportunities str_of records =
     seq (price_groups str_of records []) (\<lambda>by_instance_type.
     seq (price_scan by_instance_type []) (\<lambda>opps.
       spot_loop str_of records opps))"

subsection \<open>The analysis\<close>

fun provider_groups ::
  "UnifiedCostRecord list \<Rightarrow> (pyval \<times> UnifiedCostRecord list) list
     \<Rightarrow> error + (pyval \<times> UnifiedCostRecord list) list" where
  "provider_groups [] by_prov = Inr by_prov"
| "provider_groups (r # rs) by_prov =
     (if hashable (cloud_provider r)
      then provider_groups rs (group_add key_eq (cloud_provider r) r by_prov)
      else Inl TypeError)"

text \<open>\<^verbatim>\<open>_summarize_by_category\<close>: \<^verbatim>\<open>by_category[record.service_category] += record.cost_usd\<close>.\<close>

fun category_add :: "pyval \<Rightarrow> real \<Rightarrow> (pyval \<times> real) list \<Rightarrow> (pyval \<times> real) list" where
  "category_add k c [] = [(k, 0.0 + c)]"
| "category_add k c ((k', t) # rest) =
     (if key_eq k' k then (k', t + c) # rest else (k', t) # category_add k c rest)"

fun summarize_by_category ::
  "UnifiedCostRecord list \<Rightarrow> (pyval \<times> real) list \<Rightarrow> error + (pyval \<times> real) list" where
  "summarize_by_category [] by_cat = Inr by_cat"
| "summarize_by_category (r # rs) by_cat =
     (if hashable (service_category r)
      then summarize_by_category rs (category_add (service_category r) (cost_usd r) by_cat)
      else Inl TypeError)"

text \<open>
  The six heuristics in the order \<^verbatim>\<open>analyze_costs\<close> calls them, each result appended to
  \<^verbatim>\<open>opportunities\<close>.
\<close>

definition find_opportunities ::
  "(pyval \<Rightarrow> string) \<Rightarrow> UnifiedCostRecord list \<Rightarrow> error + Opportunity list" where
  "find_opportunities str_of records =
     seq (find_idle_resources str_of records) (\<lambda>idle_opportunities.
     seq (find_over_provisioned records) (\<lambda>over_provisioned.
     seq (Inr (find_unattached_storage str_of records)) (\<lambda>unattached_storage.
     seq (find_reserved_instance_opportunities str_of records) (\<lambda>reserved_opportunities.
     seq (find_region_optimizations str_of records) (\<lambda>region_opportunities.
     seq (find_price_change_opportunities str_of records) (\<lambda>price_change_opportunities.
       Inr (idle_opportunities @ over_provisioned @ unattached_storage @ reserved_opportunities
              @ region_opportunities @ price_change_opportunities)))))))"

text \<open>
  \<^verbatim>\<open>opportunities.sort(key=..., reverse=True)\<close>: descending by \<^verbatim>\<open>potential_savings\<close>,
  equal elements in their original order.
\<close>

definition sort_by_savings :: "Opportunity list \<Rightarrow> Opportunity list" where
  "sort_by_savings opps = sort_key (\<lambda>opp. - potential_savings opp) opps"

definition py_div :: "real \<Rightarrow> real \<Rightarrow> error + real" where
  "py_div a b = (if b = 0 then Inl ZeroDivisionError else Inr (a / b))"

text \<open>
  The result of \<^verbatim>\<open>analyze_costs\<close>. The dict returned for an empty list has the keys
  \<^verbatim>\<open>total_cost\<close>, \<^verbatim>\<open>opportunities\<close> and an empty \<^verbatim>\<open>summary\<close> only, so the other entries
  are optional.
\<close>

record cost_summary =
  by_provider :: "(pyval \<times> real) list"
  by_category :: "(pyval \<times> real) list"
  total_resources :: nat

record analysis =
  total_cost :: real
  total_potential_savings :: "real option"
  savings_percentage :: "real option"
  opportunities :: "Opportunity list"
  summary :: "cost_summary option"

definition analyze_costs ::
  "(pyval \<Rightarrow> string) \<Rightarrow> UnifiedCostRecord list \<Rightarrow> error + analysis" where
  "analyze_costs str_of records =
     (if records = [] then
        Inr \<lparr> total_cost = 0.0, total_potential_savings = None, savings_percentage = None,
              opportunities = [], summary = None \<rparr>
      else
        (let tc = total_of records in
         seq (provider_groups records []) (\<lambda>by_prov.
         seq (find_opportunities str_of records) (\<lambda>found.
           (let opps = sort_by_savings found;
                tps = sum_list (map potential_savings opps)
            in seq (if tc > 0 then seq (py_div tps tc) (\<lambda>q. Inr (q * 100)) else Inr 0) (\<lambda>pct.
               seq (summarize_by_category records []) (\<lambda>by_cat.
                 Inr \<lparr> total_cost = tc, total_potential_savings = Some tps,
                       savings_percentage = Some pct,
                       opportunities = take 20 opps,
                       summary = Some \<lparr> by_provider = map (\<lambda>(p, rs). (p, total_of rs)) by_prov,
                                       by_category = by_cat,
                                       total_resources = length records \<rparr> \<rparr>)))))))"

section \<open>Price scraping and change detection\<close>

text \<open>
  The price history is the JSON object of \<^verbatim>\<open>price_history.json\<close>, held in memory as
  \<^verbatim>\<open>historical_prices\<close>: the key \<^verbatim>\<open><provider>_prices\<close> holds a table from instance
  type to hourly price, \<^verbatim>\<open><provider>_prices_last_updated\<close> a timestamp, and
  \<^verbatim>\<open>simulated_reductions\<close> the overrides of the demonstration. Its values are of type
  \<^verbatim>\<open>Any\<close>, so every read that Python would refuse is an error of the model.
  The scraper's state is the history in memory and the file: \<open>price_file\<close> is the
  object the file holds (\<open>None\<close> when it is missing or does not parse), and
  \<open>file_writable\<close> says whether opening it for writing succeeds.
\<close>

record PricingScraper =
  historical_prices :: pydict
  price_file :: "pydict option"
  file_writable :: bool

record PriceChange =
  provider :: string
  instance_type :: string
  old_price_per_hour :: real
  new_price_per_hour :: real
  old_price_per_month :: real
  new_price_per_month :: real
  reduction_pct :: real
  savings_per_hour :: real
  savings_per_month :: real
  detected_at :: string
  change_type :: string

text \<open>\<^verbatim>\<open>v.get(k)\<close>: only a dict has the method.\<close>

fun py_get :: "pyval \<Rightarrow> string \<Rightarrow> error + pyval" where
  "py_get (PDict d) k = Inr (dict_get d k PNone)"
| "py_get v k = Inl AttributeError"

text \<open>\<^verbatim>\<open>k in v\<close> for a string \<open>k\<close>: a key of a dict, a substring of a string, an element of
  a list; other values are not containers.\<close>

fun py_in :: "string \<Rightarrow> pyval \<Rightarrow> error + bool" where
  "py_in k (PDict d) = Inr (map_of d k \<noteq> None)"
| "py_in k (PStr s) = Inr (contains s k)"
| "py_in k (PList l) = Inr (PStr k \<in> set l)"
| "py_in k v = Inl TypeError"

text \<open>\<^verbatim>\<open>v[k]\<close> for a string \<open>k\<close>.\<close>

fun py_item :: "pyval \<Rightarrow> string \<Rightarrow> error + pyval" where
  "py_item (PDict d) k = (case map_of d k of None \<Rightarrow> Inl KeyError | Some x \<Rightarrow> Inr x)"
| "py_item v k = Inl TypeError"

definition load_price_history :: "PricingScraper \<Rightarrow> pydict" where
  "load_price_history st = (case price_file st of None \<Rightarrow> [] | Some h \<Rightarrow> h)"

definition save_price_history :: "PricingScraper \<Rightarrow> pydict \<Rightarrow> PricingScraper" where
  "save_price_history st prices =
     (if file_writable st then st \<lparr> price_file := Some prices \<rparr> else st)"

definition aws_ec2_prices :: "(string \<times> real) list" where
  "aws_ec2_prices =
     [(''m5.xlarge'', 0.192), (''m5.2xlarge'', 0.384), (''t3.large'', 0.0832),
      (''t3.xlarge'', 0.1664), (''c5.4xlarge'', 0.68), (''m5.large'', 0.096),
      (''t3.medium'', 0.0416)]"

definition gcp_prices :: "(string \<times> real) list" where
  "gcp_prices =
     [(''n1-standard-4'', 0.19), (''n1-standard-8'', 0.38), (''n1-highmem-4'', 0.236),
      (''n1-standard-2'', 0.095), (''e2-standard-4'', 0.134)]"

definition azure_prices :: "(string \<times> real) list" where
  "azure_prices =
     [(''Standard_D4s_v3'', 0.192), (''Standard_D8s_v3'', 0.384), (''Standard_B2s'', 0.042),
      (''Standard_D2s_v3'', 0.096)]"

text \<open>
  Formatting with \<^verbatim>\<open>:.4f\<close>: a number is printed, a string raises \<^verbatim>\<open>ValueError\<close>,
  anything else \<^verbatim>\<open>TypeError\<close>. The result here is the number that was formatted.
\<close>

fun format_fixed :: "pyval \<Rightarrow> error + real" where
  "format_fixed (PInt i) = Inr (of_int i)"
| "format_fixed (PFloat x) = Inr x"
| "format_fixed (PBool b) = Inr (if b then 1 else 0)"
| "format_fixed (PStr s) = Inl (ValueError ''Unknown format code'')"
| "format_fixed PNone = Inl TypeError"
| "format_fixed (PDict d) = Inl TypeError"
| "format_fixed (PList l) = Inl TypeError"

text \<open>
  The loop of \<^verbatim>\<open>scrape_aws_pricing\<close>. An override is read with
  \<^verbatim>\<open>simulated_reductions[reduction_key]["new_price"]\<close> and then formatted with
  \<^verbatim>\<open>:.4f\<close> for the debug line, which only a number survives.
\<close>

fun scrape_aws_loop ::
  "pyval \<Rightarrow> string list \<Rightarrow> (string \<times> real) list \<Rightarrow> error + (string \<times> real) list" where
  "scrape_aws_loop simulated_reductions [] prices = Inr prices"
| "scrape_aws_loop simulated_reductions (itype # rest) prices =
     (case py_in (''aws:'' @ itype) simulated_reductions of
        Inl e \<Rightarrow> Inl e
      | Inr True \<Rightarrow>
          (case py_item simulated_reductions (''aws:'' @ itype) of
             Inl e \<Rightarrow> Inl e
           | Inr entry \<Rightarrow>
               (case py_item entry ''new_price'' of
                  Inl e \<Rightarrow> Inl e
                | Inr new_price \<Rightarrow>
                    (case format_fixed new_price of
                       Inl e \<Rightarrow> Inl e
                     | Inr p \<Rightarrow>
                         scrape_aws_loop simulated_reductions rest
                           (AList.update itype p prices))))
      | Inr False \<Rightarrow>
          (case map_of aws_ec2_prices itype of
             Some p \<Rightarrow>
               scrape_aws_loop simulated_reductions rest (AList.update itype p prices)
           | None \<Rightarrow>
               scrape_aws_loop simulated_reductions rest (AList.update itype 0.10 prices)))"

definition scrape_aws_pricing ::
  "PricingScraper \<Rightarrow> string list option \<Rightarrow> error + (string \<times> real) list" where
  "scrape_aws_pricing st instance_types =
     scrape_aws_loop (dict_get (historical_prices st) ''simulated_reductions'' (PDict []))
       (case instance_types of
          None \<Rightarrow> [''m5.xlarge'', ''m5.2xlarge'', ''t3.large'', ''t3.xlarge'', ''c5.4xlarge'']
        | Some ts \<Rightarrow> ts)
       []"

fun scrape_table_loop ::
  "(string \<times> real) list \<Rightarrow> real \<Rightarrow> string list \<Rightarrow> (string \<times> real) list \<Rightarrow> (string \<times> real) list" where
  "scrape_table_loop table estimate [] prices = prices"
| "scrape_table_loop table estimate (itype # rest) prices =
     scrape_table_loop table estimate rest
       (AList.update itype (dict_get table itype estimate) prices)"

definition scrape_gcp_pricing :: "string list option \<Rightarrow> (string \<times> real) list" where
  "scrape_gcp_pricing instance_types =
     scrape_table_loop gcp_prices 0.15
       (case instance_types of
          None \<Rightarrow> [''n1-standard-4'', ''n1-standard-8'', ''n1-highmem-4'']
        | Some ts \<Rightarrow> ts)
       []"

definition scrape_azure_pricing :: "string list option \<Rightarrow> (string \<times> real) list" where
  "scrape_azure_pricing instance_types =
     scrape_table_loop azure_prices 0.12
       (case instance_types of
          None \<Rightarrow> [''Standard_D4s_v3'', ''Standard_D8s_v3'', ''Standard_B2s'']
        | Some ts \<Rightarrow> ts)
       []"

text \<open>\<^verbatim>\<open>scrape_all_providers\<close>: a provider whose scrape raises contributes an empty table.\<close>

definition scrape_all_providers :: "PricingScraper \<Rightarrow> (string \<times> (string \<times> real) list) list" where
  "scrape_all_providers st =
     [(''aws'', (case scrape_aws_pricing st None of Inl e \<Rightarrow> [] | Inr prices \<Rightarrow> prices)),
      (''gcp'', scrape_gcp_pricing None),
      (''azure'', scrape_azure_pricing None)]"

text \<open>
  \<^verbatim>\<open>detect_price_changes\<close>. The inner loop compares one provider's current prices with
  its historical table; the outer loop runs over the providers; the second loop stores the
  current tables and their timestamps; then the history is saved. An exception leaves the
  loops before anything is stored. \<open>now\<close> is the reading of the clock.
\<close>

fun detect_instances ::
  "string \<Rightarrow> string \<Rightarrow> pyval \<Rightarrow> (string \<times> real) list \<Rightarrow> PriceChange list
     \<Rightarrow> error + PriceChange list" where
  "detect_instances now prov historical [] changes = Inr changes"
| "detect_instances now prov historical ((itype, current_price) # rest) changes =
     (case py_get historical itype of
        Inl e \<Rightarrow> Inl e
      | Inr historical_price \<Rightarrow>
          if truthy historical_price then
            (case num_of historical_price of
               None \<Rightarrow> Inl TypeError
             | Some hp \<Rightarrow>
                 (let change_pct = ((hp - current_price) / hp) * 100 in
                  if change_pct > 5 then
                    detect_instances now prov historical rest
                      (changes @
                       [\<lparr> provider = prov, instance_type = itype,
                          old_price_per_hour = hp, new_price_per_hour = current_price,
                          old_price_per_month = hp * 730,
                          new_price_per_month = current_price * 730,
                          reduction_pct = change_pct,
                          savings_per_hour = hp - current_price,
                          savings_per_month = (hp - current_price) * 730,
                          detected_at = now, change_type = ''price_reduction'' \<rparr>])
                  else detect_instances now prov historical rest changes))
          else detect_instances now prov historical rest changes)"

fun detect_providers ::
  "string \<Rightarrow> pydict \<Rightarrow> (string \<times> (string \<times> real) list) list \<Rightarrow> PriceChange list
     \<Rightarrow> error + PriceChange list" where
  "detect_providers now history [] changes = Inr changes"
| "detect_providers now history ((prov, instance_prices) # rest) changes =
     (case detect_instances now prov (dict_get history (prov @ ''_prices'') (PDict []))
             instance_prices changes of
        Inl e \<Rightarrow> Inl e
      | Inr changes' \<Rightarrow> detect_providers now history rest changes')"

definition price_table :: "(string \<times> real) list \<Rightarrow> pyval" where
  "price_table instance_prices = PDict (map (\<lambda>(itype, price). (itype, PFloat price)) instance_prices)"

fun store_current :: "string \<Rightarrow> pydict \<Rightarrow> (string \<times> (string \<times> real) list) list \<Rightarrow> pydict" where
  "store_current now history [] = history"
| "store_current now history ((prov, instance_prices) # rest) =
     store_current now
       (AList.update (prov @ ''_prices'' @ ''_last_updated'') (PStr now)
          (AList.update (prov @ ''_prices'') (price_table instance_prices) history))
       rest"

definition detect_price_changes ::
  "string \<Rightarrow> PricingScraper \<Rightarrow> (string \<times> (string \<times> real) list) list
     \<Rightarrow> (error + PriceChange list) \<times> PricingScraper" where
  "detect_price_changes now st current_prices =
     (case detect_providers now (historical_prices st) current_prices [] of
        Inl e \<Rightarrow> (Inl e, st)
      | Inr changes \<Rightarrow>
          (let history = store_current now (historical_prices st) current_prices
           in (Inr changes, save_price_history (st \<lparr> historical_prices := history \<rparr>) history)))"

text \<open>
  \<^verbatim>\<open>simulate_price_reduction\<close>. The history is changed in place, so what was written
  before an exception stays written.
\<close>

definition default_price :: "string \<Rightarrow> string \<Rightarrow> real" where
  "default_price prov itype =
     (if prov = ''aws'' then
        dict_get [(''m5.xlarge'', 0.192), (''t3.large'', 0.0832), (''m5.2xlarge'', 0.384)] itype 0.20
      else if prov = ''gcp'' then 0.19
      else if prov = ''azure'' then 0.192
      else 0.20)"

definition simulate_price_reduction ::
  "PricingScraper \<Rightarrow> string \<Rightarrow> string \<Rightarrow> real \<Rightarrow> (error + pydict) \<times> PricingScraper" where
  "simulate_price_reduction st prov itype pct =
     (let historical_key = prov @ ''_prices'';
          h1 = (if map_of (historical_prices st) historical_key = None
                then AList.update historical_key (PDict []) (historical_prices st)
                else historical_prices st)
      in case dict_get h1 historical_key PNone of
           PDict table \<Rightarrow>
             (let stored = dict_get table itype PNone;
                  current_price = (if stored = PNone then PFloat (default_price prov itype) else stored);
                  h2 = AList.update historical_key (PDict (AList.update itype current_price table)) h1
              in case num_of current_price of
                   None \<Rightarrow> (Inl TypeError, st \<lparr> historical_prices := h2 \<rparr>)
                 | Some cp \<Rightarrow>
                     (let new_price = cp * (1 - pct / 100);
                          h3 = (if map_of h2 ''simulated_reductions'' = None
                                then AList.update ''simulated_reductions'' (PDict []) h2
                                else h2);
                          outcome = [(''old_price'', current_price), (''new_price'', PFloat new_price),
                                     (''reduction_pct'', PFloat pct)]
                      in case dict_get h3 ''simulated_reductions'' PNone of
                           PDict sims \<Rightarrow>
                             (let h4 = AList.update ''simulated_reductions''
                                         (PDict (AList.update (prov @ '':'' @ itype) (PDict outcome) sims)) h3
                              in (Inr outcome,
                                  save_price_history (st \<lparr> historical_prices := h4 \<rparr>) h4))
                         | _ \<Rightarrow> (Inl TypeError, st \<lparr> historical_prices := h3 \<rparr>)))
         | _ \<Rightarrow> (Inl AttributeError, st \<lparr> historical_prices := h1 \<rparr>))"

text \<open>\<^verbatim>\<open>PriceChangeDetector.check_for_changes\<close>: reload, scrape, detect.\<close>

definition check_for_changes ::
  "string \<Rightarrow> PricingScraper \<Rightarrow> (error + PriceChange list) \<times> PricingScraper" where
  "check_for_changes now st =
     (let st' = st \<lparr> historical_prices := load_price_history st \<rparr>
      in detect_price_changes now st' (scrape_all_providers st'))"

section \<open>Notions used in the statements\<close>

text \<open>What a source contributes to \<^verbatim>\<open>query_all_sources\<close>: its rows, or nothing when it raised.\<close>

definition rows_or_empty :: "error + pydict list \<Rightarrow> pydict list" where
  "rows_or_empty r = (case r of Inl e \<Rightarrow> [] | Inr rows \<Rightarrow> rows)"

text \<open>
  The invariants of the inputs of \<^verbatim>\<open>detect_price_changes\<close>. A Python dict has each
  key once, at both levels of \<^verbatim>\<open>current_prices\<close>. A history is readable for a scrape
  when every \<^verbatim>\<open><provider>_prices\<close> entry it will consult is a table whose prices are
  numbers (or falsy, which the code skips): the shape \<^verbatim>\<open>_save_price_history\<close> writes.
\<close>

definition dict_keys_ok :: "(string \<times> (string \<times> real) list) list \<Rightarrow> bool" where
  "dict_keys_ok current_prices =
     (distinct (map fst current_prices) \<and>
      list_all (\<lambda>(prov, instance_prices). distinct (map fst instance_prices)) current_prices)"

definition numeric_table :: "pyval \<Rightarrow> bool" where
  "numeric_table v =
     (case v of PDict d \<Rightarrow> list_all (\<lambda>(k, x). case num_of x of None \<Rightarrow> \<not> truthy x | Some n \<Rightarrow> True) d | _ \<Rightarrow> False)"

definition history_readable :: "pydict \<Rightarrow> (string \<times> (string \<times> real) list) list \<Rightarrow> bool" where
  "history_readable history current_prices =
     list_all (\<lambda>(prov, instance_prices).
        case map_of history (prov @ ''_prices'') of None \<Rightarrow> True | Some v \<Rightarrow> numeric_table v)
       current_prices"

text \<open>
  The raw field each normalizer reads the cost from, by the provider name that
  \<^verbatim>\<open>normalize_batch\<close> dispatches on.
\<close>

definition cost_field :: "string \<Rightarrow> string" where
  "cost_field prov =
     (if prov = ''aws'' then ''lineItem/UnblendedCost''
      else if prov = ''gcp'' then ''cost''
      else if prov = ''azure'' then ''Cost''
      else ''cost_usd'')"

text \<open>
  On a string, \<^verbatim>\<open>str\<close> is the identity. The examples below apply \<open>str_of\<close> to
  strings only, and use this function for it.
\<close>

definition str_of_text :: "pyval \<Rightarrow> string" where
  "str_of_text v = (case v of PStr s \<Rightarrow> s | _ \<Rightarrow> [])"

text \<open>A computation that does not end in \<^verbatim>\<open>ZeroDivisionError\<close>.\<close>

definition no_zero_division :: "error + 'a \<Rightarrow> bool" where
  "no_zero_division r = (r \<noteq> Inl ZeroDivisionError)"

text \<open>
  Records whose fields have the types the analysis reads them at: the grouping keys can be
  hashed, the metrics are a dict, and the instance type, when present, is a string.
\<close>

definition typed_record :: "UnifiedCostRecord \<Rightarrow> bool" where
  "typed_record r =
     (hashable (resource_id r) \<and> hashable (cloud_provider r) \<and>
      hashable (service_category r) \<and> hashable (region r) \<and>
      (case usage_metrics r of
         PDict d \<Rightarrow>
           (case dict_get d ''instance_type'' (PStr []) of PStr s \<Rightarrow> True | _ \<Rightarrow> False)
       | _ \<Rightarrow> False))"

section \<open>Properties of the registry\<close>

lemma query_reads_irrelevant:
  "fst (query str_of src q reads) = fst (query str_of src q 0)"
  by (simp add: query_def split: sum.splits)

lemma query_source_reads_irrelevant:
  "fst (query_source str_of reg name q reads) = fst (query_source str_of reg name q 0)"
  using query_reads_irrelevant [of str_of _ q reads]
  by (simp add: query_source_def split: option.splits)

lemma query_all_loop_lookup:
  "map_of (fst (query_all_loop str_of reg q names results reads)) k =
     (if k \<in> set names then Some (rows_or_empty (fst (query_source str_of reg k q 0)))
      else map_of results k)"
proof (induction names arbitrary: results reads)
  case Nil
  show ?case by simp
next
  case (Cons name names)
  obtain r reads' where step: "query_source str_of reg name q reads = (r, reads')"
    by (cases "query_source str_of reg name q reads")
  have r0: "fst (query_source str_of reg name q 0) = r"
    using query_source_reads_irrelevant [of str_of reg name q reads] step by simp
  show ?case
  proof (cases r)
    case (Inl e)
    have "fst (query_all_loop str_of reg q (name # names) results reads) =
          fst (query_all_loop str_of reg q names (AList.update name [] results) reads')"
      using step Inl by simp
    moreover have "rows_or_empty (fst (query_source str_of reg name q 0)) = []"
      using r0 Inl by (simp add: rows_or_empty_def)
    ultimately show ?thesis
      using Cons.IH [of "AList.update name [] results" reads']
      by (simp add: update_conv')
  next
    case (Inr rows)
    have "fst (query_all_loop str_of reg q (name # names) results reads) =
          fst (query_all_loop str_of reg q names (AList.update name rows results) reads')"
      using step Inr by simp
    moreover have "rows_or_empty (fst (query_source str_of reg name q 0)) = rows"
      using r0 Inr by (simp add: rows_or_empty_def)
    ultimately show ?thesis
      using Cons.IH [of "AList.update name rows results" reads']
      by (simp add: update_conv')
  qed
qed

lemma query_all_loop_keys:
  "fst ` set (fst (query_all_loop str_of reg q names results reads)) =
     set names \<union> fst ` set results"
proof (induction names arbitrary: results reads)
  case Nil
  show ?case by simp
next
  case (Cons name names)
  show ?case
    by (cases "query_source str_of reg name q reads")
       (auto simp: Cons.IH dom_update split: sum.splits)
qed

lemma query_all_loop_distinct:
  "distinct (map fst results) \<Longrightarrow>
   distinct (map fst (fst (query_all_loop str_of reg q names results reads)))"
proof (induction names arbitrary: results reads)
  case Nil
  then show ?case by simp
next
  case (Cons name names)
  then show ?case
    by (cases "query_source str_of reg name q reads")
       (auto simp: distinct_update split: sum.splits)
qed

lemma limit_check_rejects:
  "map_of q ''limit'' = Some l \<Longrightarrow> py_gt_int l 10000 = Inr True \<Longrightarrow> limit_check q = Inr False"
  by (simp add: limit_check_def)

text \<open>
  Claim C6. Whatever the registry holds, \<^verbatim>\<open>query_source\<close> with a name that is not a key
  of \<^verbatim>\<open>sources\<close> raises \<^verbatim>\<open>ValueError("Data source '<name>' not found")\<close> and reaches no
  backing store; it does not return an empty list. In particular, a registry in which only
  \<^verbatim>\<open>"aws"\<close> has been registered answers a query for \<^verbatim>\<open>"gcp"\<close> with that error.
\<close>

theorem query_source_unregistered:
  "(map_of (sources reg) source_name = None \<longrightarrow>
      query_source str_of reg source_name query_params reads =
        (Inl (ValueError (not_found_message source_name)), reads)) \<and>
   query_source str_of (register init_registry ''aws'' src) ''gcp'' query_params reads =
     (Inl (ValueError (not_found_message ''gcp'')), reads)"
  by (simp add: query_source_def get_source_def register_def init_registry_def)

theorem query_source_unregistered_witness:
  "map_of (sources (register init_registry ''aws'' (AWSDataSource (\<lambda>q. Inr [])))) ''azure'' = None \<and>
   query_source (\<lambda>v. []) (register init_registry ''aws'' (AWSDataSource (\<lambda>q. Inr [])))
       ''azure'' [(''limit'', PInt 5)] 0 =
     (Inl (ValueError (not_found_message ''azure'')), 0)"
  using query_source_unregistered
    [of "register init_registry ''aws'' (AWSDataSource (\<lambda>q. Inr []))" "''azure''"
        "\<lambda>v. []" "[(''limit'', PInt 5)]" 0]
  by (simp add: register_def init_registry_def)

text \<open>
  Claim C7. \<^verbatim>\<open>query_all_sources\<close> always returns a mapping, with one entry for each
  registered name and no other. The entry of a name is the rows its own source returns
  for the query, or the empty list when that source raised: it is a function of that one
  source and the query, so neither a failure nor a success elsewhere changes it.
\<close>

theorem query_all_sources_isolates_failures:
  "map_of (fst (query_all_sources str_of reg query_params reads)) name =
     map_option (\<lambda>source. rows_or_empty (fst (query str_of source query_params 0)))
       (map_of (sources reg) name) \<and>
   distinct (map fst (fst (query_all_sources str_of reg query_params reads))) \<and>
   fst ` set (fst (query_all_sources str_of reg query_params reads)) = fst ` set (sources reg)"
proof (intro conjI)
  show "map_of (fst (query_all_sources str_of reg query_params reads)) name =
     map_option (\<lambda>source. rows_or_empty (fst (query str_of source query_params 0)))
       (map_of (sources reg) name)"
  proof (cases "map_of (sources reg) name")
    case None
    then have "name \<notin> set (map fst (sources reg))"
      by (simp add: map_of_eq_None_iff)
    with None show ?thesis
      by (simp add: query_all_sources_def query_all_loop_lookup)
  next
    case (Some source)
    then have "name \<in> set (map fst (sources reg))"
      by (metis map_of_eq_None_iff option.distinct(1) set_map)
    with Some show ?thesis
      by (simp add: query_all_sources_def query_all_loop_lookup query_source_def get_source_def)
  qed
  show "distinct (map fst (fst (query_all_sources str_of reg query_params reads)))"
    by (simp add: query_all_sources_def query_all_loop_distinct)
  show "fst ` set (fst (query_all_sources str_of reg query_params reads)) = fst ` set (sources reg)"
    by (simp add: query_all_sources_def query_all_loop_keys)
qed

text \<open>
  Claim C8. For every kind of source, a query whose \<^verbatim>\<open>limit\<close> is a number above 10000 is
  refused by \<^verbatim>\<open>validate_query\<close>. The MongoDB source also refuses every query with a filter
  whose text contains \<^verbatim>\<open>$where\<close>, \<^verbatim>\<open>$eval\<close> or \<^verbatim>\<open>$function\<close>. And whenever
  \<^verbatim>\<open>validate_query\<close> answers \<^verbatim>\<open>False\<close>, \<^verbatim>\<open>query\<close> raises its validation error with the
  count of store retrievals unchanged.
\<close>

theorem validate_query_boundary:
  "(map_of query_params ''limit'' = Some l \<longrightarrow> py_gt_int l 10000 = Inr True \<longrightarrow>
      validate_query str_of src query_params = Inr False) \<and>
   (map_of query_params ''filter'' = Some f \<longrightarrow>
      list_ex (\<lambda>op. contains (str_of f) op) [''$where'', ''$eval'', ''$function''] \<longrightarrow>
      validate_query str_of (MongoDBDataSource b) query_params = Inr False) \<and>
   (validate_query str_of src query_params = Inr False \<longrightarrow>
      query str_of src query_params reads = (Inl (ValueError (validation_message src)), reads))"
proof (intro conjI impI)
  assume "map_of query_params ''limit'' = Some l" and "py_gt_int l 10000 = Inr True"
  then have "limit_check query_params = Inr False"
    by (rule limit_check_rejects)
  then show "validate_query str_of src query_params = Inr False"
    by (cases src) simp_all
next
  assume "map_of query_params ''filter'' = Some f"
    and "list_ex (\<lambda>op. contains (str_of f) op) [''$where'', ''$eval'', ''$function'']"
  then show "validate_query str_of (MongoDBDataSource b) query_params = Inr False"
    by (simp add: dangerous_ops_def)
next
  assume "validate_query str_of src query_params = Inr False"
  then show "query str_of src query_params reads = (Inl (ValueError (validation_message src)), reads)"
    by (simp add: query_def)
qed

theorem validate_query_boundary_witness:
  "map_of [(''limit'', PInt 10001), (''filter'', PStr ''{$where: 1}'')] ''limit'' = Some (PInt 10001) \<and>
   py_gt_int (PInt 10001) 10000 = Inr True \<and>
   validate_query (\<lambda>v. case v of PStr s \<Rightarrow> s | _ \<Rightarrow> []) (RESTAPIDataSource ''costs'' (\<lambda>q. Inr []))
     [(''limit'', PInt 10001), (''filter'', PStr ''{$where: 1}'')] = Inr False \<and>
   map_of [(''limit'', PInt 10001), (''filter'', PStr ''{$where: 1}'')] ''filter'' =
     Some (PStr ''{$where: 1}'') \<and>
   list_ex (\<lambda>op. contains ''{$where: 1}'' op) [''$where'', ''$eval'', ''$function''] \<and>
   validate_query (\<lambda>v. case v of PStr s \<Rightarrow> s | _ \<Rightarrow> []) (MongoDBDataSource (\<lambda>q. Inr []))
     [(''limit'', PInt 10001), (''filter'', PStr ''{$where: 1}'')] = Inr False \<and>
   query (\<lambda>v. case v of PStr s \<Rightarrow> s | _ \<Rightarrow> []) (RESTAPIDataSource ''costs'' (\<lambda>q. Inr []))
     [(''limit'', PInt 10001), (''filter'', PStr ''{$where: 1}'')] 0 =
     (Inl (ValueError ''Query validation failed''), 0)"
  using validate_query_boundary
    [of "[(''limit'', PInt 10001), (''filter'', PStr ''{$where: 1}'')]" "PInt 10001"
        "\<lambda>v. case v of PStr s \<Rightarrow> s | _ \<Rightarrow> []" "RESTAPIDataSource ''costs'' (\<lambda>q. Inr [])"
        "PStr ''{$where: 1}''" "\<lambda>q. Inr []" 0]
  by (simp add: startswith_def)

section \<open>Properties of the price history\<close>

lemma prices_key_neq: "p @ ''_prices'' \<noteq> q @ ''_prices'' @ ''_last_updated''"
proof
  assume "p @ ''_prices'' = q @ ''_prices'' @ ''_last_updated''"
  then have "last (p @ ''_prices'') = last (q @ ''_prices'' @ ''_last_updated'')"
    by simp
  then show False by simp
qed

lemma store_current_other:
  "p \<notin> fst ` set c \<Longrightarrow>
   map_of (store_current now h c) (p @ ''_prices'') = map_of h (p @ ''_prices'')"
proof (induction c arbitrary: h)
  case Nil
  show ?case by simp
next
  case (Cons entry c)
  obtain q ips where entry: "entry = (q, ips)" by (cases entry)
  from Cons.prems entry have "p \<noteq> q" and "p \<notin> fst ` set c" by auto
  then show ?case
    using Cons.IH prices_key_neq [of p q] by (simp add: entry update_conv')
qed

lemma store_current_baseline:
  "distinct (map fst c) \<Longrightarrow> (p, ips) \<in> set c \<Longrightarrow>
   map_of (store_current now h c) (p @ ''_prices'') = Some (price_table ips)"
proof (induction c arbitrary: h)
  case Nil
  then show ?case by simp
next
  case (Cons entry c)
  obtain q ipsq where entry: "entry = (q, ipsq)" by (cases entry)
  show ?case
  proof (cases "(p, ips) = (q, ipsq)")
    case True
    with Cons.prems entry have "p \<notin> fst ` set c" by auto
    then show ?thesis
      using True prices_key_neq [of p q] by (simp add: entry store_current_other update_conv')
  next
    case False
    with Cons.prems entry have "(p, ips) \<in> set c" and "distinct (map fst c)" by auto
    then show ?thesis
      using Cons.IH by (simp add: entry)
  qed
qed

lemma py_get_price_table:
  "distinct (map fst ips) \<Longrightarrow> (itype, price) \<in> set ips \<Longrightarrow>
   py_get (price_table ips) itype = Inr (PFloat price)"
proof -
  assume d: "distinct (map fst ips)" and m: "(itype, price) \<in> set ips"
  have "distinct (map fst (map (\<lambda>(itype, price). (itype, PFloat price)) ips))"
    using d by (simp add: comp_def case_prod_unfold)
  moreover have "(itype, PFloat price) \<in> set (map (\<lambda>(itype, price). (itype, PFloat price)) ips)"
    using m by force
  ultimately have "map_of (map (\<lambda>(itype, price). (itype, PFloat price)) ips) itype = Some (PFloat price)"
    by (rule map_of_is_SomeI)
  then show ?thesis
    by (simp add: price_table_def dict_get_def)
qed

lemma detect_instances_baseline:
  "distinct (map fst ips) \<Longrightarrow> set todo \<subseteq> set ips \<Longrightarrow>
   detect_instances now prov (price_table ips) todo changes = Inr changes"
proof (induction todo arbitrary: changes)
  case Nil
  show ?case by simp
next
  case (Cons entry todo)
  obtain itype price where entry: "entry = (itype, price)" by (cases entry)
  with Cons.prems have "(itype, price) \<in> set ips" by simp
  with Cons.prems have get: "py_get (price_table ips) itype = Inr (PFloat price)"
    by (simp add: py_get_price_table)
  from Cons.prems have "set todo \<subseteq> set ips" by simp
  with Cons.prems Cons.IH have rest: "\<And>ch. detect_instances now prov (price_table ips) todo ch = Inr ch"
    by simp
  show ?case
    by (simp add: entry get rest Let_def)
qed

lemma detect_providers_baseline:
  "dict_keys_ok c \<Longrightarrow> set todo \<subseteq> set c \<Longrightarrow>
   detect_providers now' (store_current now h c) todo changes = Inr changes"
proof (induction todo arbitrary: changes)
  case Nil
  show ?case by simp
next
  case (Cons entry todo)
  obtain prov ips where entry: "entry = (prov, ips)" by (cases entry)
  with Cons.prems have mem: "(prov, ips) \<in> set c" by simp
  with Cons.prems have inner: "distinct (map fst ips)"
    by (auto simp: dict_keys_ok_def list_all_iff)
  from Cons.prems mem have "map_of (store_current now h c) (prov @ ''_prices'') = Some (price_table ips)"
    by (simp add: dict_keys_ok_def store_current_baseline)
  then have tbl: "dict_get (store_current now h c) (prov @ ''_prices'') (PDict []) = price_table ips"
    by (simp add: dict_get_def)
  from Cons.prems have "set todo \<subseteq> set c" by simp
  with Cons.prems Cons.IH have rest: "\<And>ch. detect_providers now' (store_current now h c) todo ch = Inr ch"
    by simp
  show ?case
    by (simp add: entry tbl rest detect_instances_baseline [OF inner])
qed

lemma detect_instances_readable:
  "numeric_table historical \<Longrightarrow> \<exists>ch. detect_instances now prov historical todo changes = Inr ch"
proof (induction todo arbitrary: changes)
  case Nil
  show ?case by simp
next
  case (Cons entry todo)
  obtain itype price where entry: "entry = (itype, price)" by (cases entry)
  from Cons.prems obtain d where d: "historical = PDict d"
    and all: "list_all (\<lambda>(k, x). case num_of x of None \<Rightarrow> \<not> truthy x | Some n \<Rightarrow> True) d"
    by (auto simp: numeric_table_def split: pyval.splits)
  have val: "\<not> truthy (dict_get d itype PNone) \<or> num_of (dict_get d itype PNone) \<noteq> None"
  proof (cases "map_of d itype")
    case None
    then show ?thesis by (simp add: dict_get_def)
  next
    case (Some x)
    then have "(itype, x) \<in> set d" by (rule map_of_SomeD)
    with all have "\<not> truthy x \<or> num_of x \<noteq> None" by (auto simp: list_all_iff split: option.splits)
    with Some show ?thesis by (simp add: dict_get_def)
  qed
  from Cons.IH Cons.prems have rest: "\<And>ch. \<exists>ch'. detect_instances now prov historical todo ch = Inr ch'"
    by simp
  from val show ?case
    using rest by (auto simp: entry d Let_def)
qed

lemma detect_providers_readable:
  "history_readable h c \<Longrightarrow> \<exists>ch. detect_providers now h c changes = Inr ch"
proof (induction c arbitrary: changes)
  case Nil
  show ?case by simp
next
  case (Cons entry c)
  obtain prov ips where entry: "entry = (prov, ips)" by (cases entry)
  have "numeric_table (dict_get h (prov @ ''_prices'') (PDict []))"
  proof (cases "map_of h (prov @ ''_prices'')")
    case None
    then show ?thesis by (simp add: dict_get_def numeric_table_def)
  next
    case (Some v)
    with Cons.prems entry show ?thesis by (simp add: history_readable_def dict_get_def)
  qed
  then obtain ch1 where ch1: "detect_instances now prov (dict_get h (prov @ ''_prices'') (PDict [])) ips changes = Inr ch1"
    using detect_instances_readable by blast
  from Cons.prems have "history_readable h c" by (simp add: history_readable_def)
  with Cons.IH obtain ch2 where "detect_providers now h c ch1 = Inr ch2" by blast
  with ch1 show ?case by (simp add: entry)
qed

text \<open>
  Claim C9. Whenever \<^verbatim>\<open>detect_price_changes\<close> returns, the history it leaves holds,
  under \<^verbatim>\<open><provider>_prices\<close>, the current price table of every provider of the scrape,
  and a second call with the same current prices returns the empty list. It does return
  on every readable history.
\<close>

theorem detect_twice_empty:
  assumes "dict_keys_ok current_prices"
  shows "(detect_price_changes now st current_prices = (Inr changes, st1) \<longrightarrow>
            (\<forall>(prov, instance_prices) \<in> set current_prices.
                map_of (historical_prices st1) (prov @ ''_prices'') = Some (price_table instance_prices)) \<and>
            fst (detect_price_changes now' st1 current_prices) = Inr []) \<and>
         (history_readable (historical_prices st) current_prices \<longrightarrow>
            (\<exists>ch. fst (detect_price_changes now st current_prices) = Inr ch))"
proof (intro conjI impI)
  assume run: "detect_price_changes now st current_prices = (Inr changes, st1)"
  then have h1: "historical_prices st1 = store_current now (historical_prices st) current_prices"
    by (auto simp: detect_price_changes_def save_price_history_def Let_def split: sum.splits if_splits)
  from assms show "\<forall>(prov, instance_prices) \<in> set current_prices.
      map_of (historical_prices st1) (prov @ ''_prices'') = Some (price_table instance_prices)"
    by (auto simp: h1 dict_keys_ok_def store_current_baseline)
  have "detect_providers now' (historical_prices st1) current_prices [] = Inr []"
    unfolding h1 using assms by (rule detect_providers_baseline) simp
  then show "fst (detect_price_changes now' st1 current_prices) = Inr []"
    by (simp add: detect_price_changes_def Let_def)
next
  assume "history_readable (historical_prices st) current_prices"
  then obtain ch where "detect_providers now (historical_prices st) current_prices [] = Inr ch"
    using detect_providers_readable by blast
  then show "\<exists>ch. fst (detect_price_changes now st current_prices) = Inr ch"
    by (simp add: detect_price_changes_def Let_def)
qed


theorem detect_twice_empty_witness:
  "dict_keys_ok [(''aws'', [(''m5.xlarge'', 0.16), (''t3.large'', 0.0832)]), (''gcp'', [(''n1-standard-4'', 0.19)])] \<and>
   history_readable [(''aws_prices'', PDict [(''m5.xlarge'', PFloat 0.2)])]
     [(''aws'', [(''m5.xlarge'', 0.16), (''t3.large'', 0.0832)]), (''gcp'', [(''n1-standard-4'', 0.19)])] \<and>
   map (\<lambda>ch. (provider ch, instance_type ch, reduction_pct ch))
     (projr (fst (detect_price_changes ''t1''
        \<lparr> historical_prices = [(''aws_prices'', PDict [(''m5.xlarge'', PFloat 0.2)])],
          price_file = None, file_writable = False \<rparr>
        [(''aws'', [(''m5.xlarge'', 0.16), (''t3.large'', 0.0832)]), (''gcp'', [(''n1-standard-4'', 0.19)])])))
     = [(''aws'', ''m5.xlarge'', 20)] \<and>
   fst (detect_price_changes ''t2''
     (snd (detect_price_changes ''t1''
        \<lparr> historical_prices = [(''aws_prices'', PDict [(''m5.xlarge'', PFloat 0.2)])],
          price_file = None, file_writable = False \<rparr>
        [(''aws'', [(''m5.xlarge'', 0.16), (''t3.large'', 0.0832)]), (''gcp'', [(''n1-standard-4'', 0.19)])]))
     [(''aws'', [(''m5.xlarge'', 0.16), (''t3.large'', 0.0832)]), (''gcp'', [(''n1-standard-4'', 0.19)])]) = Inr []"
proof -
  let ?c = "[(''aws'', [(''m5.xlarge'', 0.16), (''t3.large'', 0.0832)]), (''gcp'', [(''n1-standard-4'', 0.19::real)])]"
  let ?st = "\<lparr> historical_prices = [(''aws_prices'', PDict [(''m5.xlarge'', PFloat 0.2)])],
          price_file = None, file_writable = False \<rparr>"
  have ok: "dict_keys_ok ?c"
    by (simp add: dict_keys_ok_def)
  have rd: "history_readable (historical_prices ?st) ?c"
    by (simp add: history_readable_def numeric_table_def)
  have first: "map (\<lambda>ch. (provider ch, instance_type ch, reduction_pct ch))
     (projr (fst (detect_price_changes ''t1'' ?st ?c))) = [(''aws'', ''m5.xlarge'', 20)]"
    by (simp add: detect_price_changes_def dict_get_def Let_def)
  obtain r st1 where run: "detect_price_changes ''t1'' ?st ?c = (r, st1)"
    by (cases "detect_price_changes ''t1'' ?st ?c")
  from detect_twice_empty [OF ok, of "''t1''" ?st] rd obtain ch where "fst (detect_price_changes ''t1'' ?st ?c) = Inr ch"
    by blast
  with run have run': "detect_price_changes ''t1'' ?st ?c = (Inr ch, st1)" by simp
  from detect_twice_empty [OF ok, of "''t1''" ?st ch st1 "''t2''"] run'
  have "fst (detect_price_changes ''t2'' st1 ?c) = Inr []" by blast
  with run' have "fst (detect_price_changes ''t2'' (snd (detect_price_changes ''t1'' ?st ?c)) ?c) = Inr []"
    by simp
  with ok rd first show ?thesis by simp
qed

text \<open>
  Claim C10. From an empty history, \<^verbatim>\<open>simulate_price_reduction("aws", "m5.xlarge", 15)\<close>
  followed by one pass of \<^verbatim>\<open>check_for_changes\<close> (reload the saved history, scrape all
  providers, detect) reports exactly one change: aws m5.xlarge, from 0.192 to 0.1632 per
  hour, a reduction of 15 percent, saving \<open>(0.192 * 0.15) * 730\<close> per month. Prices are
  real numbers here, so the equalities are exact.
\<close>

theorem simulated_reduction_detected:
  "fst (check_for_changes now
     (snd (simulate_price_reduction
        \<lparr> historical_prices = [], price_file = f, file_writable = True \<rparr> ''aws'' ''m5.xlarge'' 15))) =
   Inr [\<lparr> provider = ''aws'', instance_type = ''m5.xlarge'',
          old_price_per_hour = 0.192, new_price_per_hour = 0.1632,
          old_price_per_month = 0.192 * 730, new_price_per_month = 0.1632 * 730,
          reduction_pct = 15.0,
          savings_per_hour = 0.192 * 0.15,
          savings_per_month = (0.192 * 0.15) * 730,
          detected_at = now, change_type = ''price_reduction'' \<rparr>]"
  by (simp add: check_for_changes_def simulate_price_reduction_def default_price_def
      save_price_history_def load_price_history_def scrape_all_providers_def
      scrape_aws_pricing_def scrape_gcp_pricing_def scrape_azure_pricing_def
      aws_ec2_prices_def gcp_prices_def azure_prices_def
      detect_price_changes_def dict_get_def startswith_def Let_def)

section \<open>Properties of the normalizers\<close>

lemma split_not_empty: "split sep s \<noteq> []"
  by (induction s) (auto split: list.splits)

lemma init_cost:
  "UnifiedCostRecord_init float_str data = Inr r \<Longrightarrow>
   py_float float_str (dict_get data ''cost_usd'' (PFloat 0)) = Inr (cost_usd r)"
  by (auto simp: UnifiedCostRecord_init_def split: sum.splits)

lemma normalize_aws_cost:
  "normalize_aws float_str str_of row = Inr r \<Longrightarrow>
   py_float float_str (dict_get row ''lineItem/UnblendedCost'' (PFloat 0)) = Inr (cost_usd r)"
  by (auto simp: normalize_aws_def Let_def dict_get_def dest!: init_cost split: sum.splits)

lemma normalize_gcp_cost:
  "normalize_gcp float_str str_of row = Inr r \<Longrightarrow>
   py_float float_str (dict_get row ''cost'' (PFloat 0)) = Inr (cost_usd r)"
  by (auto simp: normalize_gcp_def Let_def dict_get_def dest!: init_cost split: sum.splits)

lemma normalize_azure_cost:
  "normalize_azure float_str str_of row = Inr r \<Longrightarrow>
   py_float float_str (dict_get row ''Cost'' (PFloat 0)) = Inr (cost_usd r)"
  by (auto simp: normalize_azure_def Let_def dict_get_def dest!: init_cost split: sum.splits)

lemma normalize_csv_cost:
  "normalize_csv float_str row prov = Inr r \<Longrightarrow>
   py_float float_str (dict_get row ''cost_usd'' (PFloat 0)) = Inr (cost_usd r)"
  by (auto simp: normalize_csv_def Let_def dict_get_def dest!: init_cost split: sum.splits)

lemma normalize_one_cost:
  "normalize_one float_str str_of prov row = Inr r \<Longrightarrow>
   py_float float_str (dict_get row (cost_field prov) (PFloat 0)) = Inr (cost_usd r)"
  by (auto simp: normalize_one_def cost_field_def
      dest: normalize_aws_cost normalize_gcp_cost normalize_azure_cost normalize_csv_cost
      split: if_splits)

lemma normalize_batch_origin:
  "r \<in> set (normalize_batch float_str str_of rows prov) \<Longrightarrow>
   \<exists>row \<in> set rows. normalize_one float_str str_of prov row = Inr r"
  by (induction rows) (auto split: sum.splits)

lemma normalize_aws_unparsable:
  "map_of row ''lineItem/UnblendedCost'' = Some (PStr s) \<Longrightarrow> float_str s = None \<Longrightarrow>
   normalize_aws float_str str_of row = Inl (ValueError ''could not convert string to float'')"
  by (simp add: normalize_aws_def dict_get_def Let_def)

lemma normalize_gcp_unparsable:
  "map_of row ''cost'' = Some (PStr s) \<Longrightarrow> float_str s = None \<Longrightarrow>
   normalize_gcp float_str str_of row = Inl (ValueError ''could not convert string to float'')"
  by (simp add: normalize_gcp_def dict_get_def Let_def)

lemma normalize_azure_unparsable:
  "map_of row ''Cost'' = Some (PStr s) \<Longrightarrow> float_str s = None \<Longrightarrow>
   normalize_azure float_str str_of row = Inl (ValueError ''could not convert string to float'')"
  by (simp add: normalize_azure_def dict_get_def Let_def)

lemma normalize_csv_unparsable:
  "map_of row ''cost_usd'' = Some (PStr s) \<Longrightarrow> float_str s = None \<Longrightarrow>
   normalize_csv float_str row prov = Inl (ValueError ''could not convert string to float'')"
  by (simp add: normalize_csv_def dict_get_def Let_def)

lemma normalize_one_unparsable:
  "map_of row (cost_field prov) = Some (PStr s) \<Longrightarrow> float_str s = None \<Longrightarrow>
   normalize_one float_str str_of prov row = Inl (ValueError ''could not convert string to float'')"
  by (cases "prov = ''aws''"; cases "prov = ''gcp''"; cases "prov = ''azure''")
     (simp_all add: normalize_one_def cost_field_def normalize_aws_unparsable
        normalize_gcp_unparsable normalize_azure_unparsable normalize_csv_unparsable)

lemma normalize_csv_absent:
  "map_of row ''cost_usd'' = None \<Longrightarrow>
   \<exists>r. normalize_csv float_str row prov = Inr r \<and> cost_usd r = 0"
  by (simp add: normalize_csv_def dict_get_def UnifiedCostRecord_init_def)

lemma normalize_one_absent:
  "map_of row (cost_field prov) = None \<Longrightarrow> normalize_one float_str str_of prov row = Inr r \<Longrightarrow>
   cost_usd r = 0"
  using normalize_one_cost [of float_str str_of prov row r] by (simp add: dict_get_def)

lemma split_first: "first_item (split sep s) = Inr (takeWhile (\<lambda>c. c \<noteq> sep) s)"
  by (induction s) (auto simp: first_item_def split: list.splits)

lemma aws_region_text:
  "az \<noteq> [] \<Longrightarrow> aws_region (PStr az) = Inr (PStr (takeWhile (\<lambda>c. c \<noteq> CHR ''-'') az))"
  by (simp add: aws_region_def split_first)

text \<open>
  Claim C3. The claim has the region of availability zone \<^verbatim>\<open>us-east-1a\<close> be
  \<^verbatim>\<open>us-east-1\<close>. \<^verbatim>\<open>normalize_aws\<close> takes \<^verbatim>\<open>region.split('-')[0]\<close>, the text before
  the first hyphen: on that zone the record's region is \<^verbatim>\<open>us\<close>.
\<close>

theorem normalize_aws_region_first_segment:
  "map_sum id region
     (normalize_aws decimal_float str_of_text [(''lineItem/AvailabilityZone'', PStr ''us-east-1a'')]) =
   Inr (PStr ''us'') \<and>
   PStr ''us'' \<noteq> PStr ''us-east-1''"
  by (simp add: normalize_aws_def dict_get_def categorize_service_def determine_resource_type_def
      aws_region_def first_item_def UnifiedCostRecord_init_def lower_def any_in_def startswith_def
      str_of_text_def Let_def)

text \<open>
  Claim C4, as stated, fails: a cost field whose text is no number makes each of the four
  normalizers raise \<^verbatim>\<open>ValueError\<close>; none of them yields a record with cost 0.
\<close>

theorem normalize_unparsable_cost_counterexample:
  "decimal_float ''abc'' = None \<and>
   normalize_aws decimal_float str_of_text [(''lineItem/UnblendedCost'', PStr ''abc'')] =
     Inl (ValueError ''could not convert string to float'') \<and>
   normalize_gcp decimal_float str_of_text [(''cost'', PStr ''abc'')] =
     Inl (ValueError ''could not convert string to float'') \<and>
   normalize_azure decimal_float str_of_text [(''Cost'', PStr ''abc'')] =
     Inl (ValueError ''could not convert string to float'') \<and>
   normalize_csv decimal_float [(''cost_usd'', PStr ''abc'')] ''custom'' =
     Inl (ValueError ''could not convert string to float'')"
  by (simp add: normalize_aws_def normalize_gcp_def normalize_azure_def normalize_csv_def
      dict_get_def decimal_float_def unsigned_decimal_def digit_of_def Let_def)

text \<open>
  Claim C4, amended. Each normalizer converts its provider's cost field with
  \<^verbatim>\<open>float\<close>. When the field is absent the cost read is 0.0: every record produced has
  \<^verbatim>\<open>cost_usd = 0\<close>, and \<^verbatim>\<open>normalize_csv\<close> always produces one. When the field holds
  text that \<^verbatim>\<open>float\<close> rejects, the normalizer raises \<^verbatim>\<open>ValueError\<close>, and
  \<^verbatim>\<open>normalize_batch\<close> leaves that row out and goes on with the rest.
\<close>

theorem normalize_cost_field:
  "(map_of row (cost_field prov) = None \<longrightarrow> normalize_one float_str str_of prov row = Inr r \<longrightarrow>
      cost_usd r = 0) \<and>
   (map_of row ''cost_usd'' = None \<longrightarrow>
      (\<exists>r'. normalize_csv float_str row prov = Inr r' \<and> cost_usd r' = 0)) \<and>
   (map_of row (cost_field prov) = Some (PStr s) \<longrightarrow> float_str s = Some x \<longrightarrow>
      normalize_one float_str str_of prov row = Inr r \<longrightarrow> cost_usd r = x) \<and>
   (map_of row (cost_field prov) = Some (PStr s) \<longrightarrow> float_str s = None \<longrightarrow>
      normalize_one float_str str_of prov row = Inl (ValueError ''could not convert string to float'') \<and>
      normalize_batch float_str str_of (row # rows) prov = normalize_batch float_str str_of rows prov)"
proof (intro conjI impI)
  assume "map_of row (cost_field prov) = Some (PStr s)" and "float_str s = Some x"
    and "normalize_one float_str str_of prov row = Inr r"
  then show "cost_usd r = x"
    using normalize_one_cost [of float_str str_of prov row r] by (simp add: dict_get_def)
next
  assume "map_of row (cost_field prov) = None" and "normalize_one float_str str_of prov row = Inr r"
  then show "cost_usd r = 0" by (rule normalize_one_absent)
next
  assume "map_of row ''cost_usd'' = None"
  then show "\<exists>r'. normalize_csv float_str row prov = Inr r' \<and> cost_usd r' = 0"
    by (rule normalize_csv_absent)
next
  assume a: "map_of row (cost_field prov) = Some (PStr s)" "float_str s = None"
  then show raised: "normalize_one float_str str_of prov row = Inl (ValueError ''could not convert string to float'')"
    by (rule normalize_one_unparsable)
  then show "normalize_batch float_str str_of (row # rows) prov = normalize_batch float_str str_of rows prov"
    by simp
qed

theorem normalize_cost_field_witness:
  "map_of [(''lineItem/ProductCode'', PStr ''AmazonEC2'')] (cost_field ''aws'') = None \<and>
   map_sum id cost_usd
     (normalize_one decimal_float str_of_text ''aws'' [(''lineItem/ProductCode'', PStr ''AmazonEC2'')]) = Inr 0 \<and>
   map_of [(''cost'', PStr ''2.5'')] (cost_field ''gcp'') = Some (PStr ''2.5'') \<and>
   decimal_float ''2.5'' = Some 2.5 \<and>
   map_sum id cost_usd (normalize_one decimal_float str_of_text ''gcp'' [(''cost'', PStr ''2.5'')]) = Inr 2.5 \<and>
   map_of [(''cost'', PStr ''n/a'')] (cost_field ''gcp'') = Some (PStr ''n/a'') \<and>
   decimal_float ''n/a'' = None \<and>
   normalize_one decimal_float str_of_text ''gcp'' [(''cost'', PStr ''n/a'')] =
     Inl (ValueError ''could not convert string to float'') \<and>
   map cost_usd (normalize_batch decimal_float str_of_text
      [[(''cost'', PStr ''n/a'')], [(''cost'', PStr ''2.5'')]] ''gcp'') = [2.5]"
proof -
  let ?row = "[(''lineItem/ProductCode'', PStr ''AmazonEC2'')]"
  let ?good = "[(''cost'', PStr ''2.5'')]"
  let ?bad = "[(''cost'', PStr ''n/a'')]"
  have absent: "map_of ?row (cost_field ''aws'') = None"
    by (simp add: cost_field_def)
  have "\<exists>r. normalize_one decimal_float str_of_text ''aws'' ?row = Inr r"
    by (simp add: normalize_one_def normalize_aws_def dict_get_def categorize_service_def
        aws_region_def UnifiedCostRecord_init_def lower_def any_in_def startswith_def Let_def)
  then obtain r where r: "normalize_one decimal_float str_of_text ''aws'' ?row = Inr r" ..
  from normalize_cost_field
    [where row = ?row and prov = "''aws''" and float_str = decimal_float
       and str_of = str_of_text and r = r] absent r
  have zero: "cost_usd r = 0" by blast
  have good: "map_of ?good (cost_field ''gcp'') = Some (PStr ''2.5'')"
    by (simp add: cost_field_def)
  have parsed: "decimal_float ''2.5'' = Some 2.5"
    by (simp add: decimal_float_def unsigned_decimal_def digit_of_def)
  have "\<exists>r. normalize_one decimal_float str_of_text ''gcp'' ?good = Inr r"
    by (simp add: normalize_one_def normalize_gcp_def dict_get_def categorize_service_def
        UnifiedCostRecord_init_def lower_def any_in_def startswith_def Let_def parsed)
  then obtain r2 where r2: "normalize_one decimal_float str_of_text ''gcp'' ?good = Inr r2" ..
  from normalize_cost_field
    [where row = ?good and prov = "''gcp''" and float_str = decimal_float
       and str_of = str_of_text and r = r2 and s = "''2.5''" and x = "2.5"] good parsed r2
  have two: "cost_usd r2 = 2.5" by blast
  have bad: "map_of ?bad (cost_field ''gcp'') = Some (PStr ''n/a'')"
    by (simp add: cost_field_def)
  have nan: "decimal_float ''n/a'' = None"
    by (simp add: decimal_float_def unsigned_decimal_def digit_of_def)
  from normalize_cost_field
    [where row = ?bad and prov = "''gcp''" and float_str = decimal_float
       and str_of = str_of_text and s = "''n/a''" and rows = "[?good]"] bad nan
  have raised: "normalize_one decimal_float str_of_text ''gcp'' ?bad =
      Inl (ValueError ''could not convert string to float'')"
    and skipped: "normalize_batch decimal_float str_of_text [?bad, ?good] ''gcp'' =
      normalize_batch decimal_float str_of_text [?good] ''gcp''"
    by blast+
  have rest: "map cost_usd (normalize_batch decimal_float str_of_text [?good] ''gcp'') = [2.5]"
    using r2 two by simp
  from absent r zero good parsed r2 two bad nan raised skipped rest show ?thesis by simp
qed

text \<open>
  Claim C5, as stated, fails: a raw cost of -5 (a number) or \<^verbatim>\<open>"-5.25"\<close> (text) gives a
  record whose \<^verbatim>\<open>cost_usd\<close> is that negative number.
\<close>

theorem negative_cost_counterexample:
  "map_sum id cost_usd (normalize_csv decimal_float [(''cost_usd'', PFloat (- 5))] ''custom'') = Inr (- 5) \<and>
   map_sum id cost_usd
     (normalize_aws decimal_float str_of_text [(''lineItem/UnblendedCost'', PStr ''-5.25'')]) = Inr (- 5.25) \<and>
   \<not> (0::real) \<le> - 5 \<and> \<not> (0::real) \<le> - 5.25"
  by (simp add: normalize_csv_def normalize_aws_def dict_get_def categorize_service_def
      aws_region_def UnifiedCostRecord_init_def lower_def any_in_def startswith_def Let_def
      decimal_float_def unsigned_decimal_def digit_of_def)

text \<open>
  Claim C5, amended. The \<^verbatim>\<open>cost_usd\<close> of every record a normalizer produces, alone or
  within \<^verbatim>\<open>normalize_batch\<close>, is \<^verbatim>\<open>float\<close> of the raw cost field of its row (0.0 when
  the field is absent). So it is non-negative exactly when the raw cost is; nothing
  rejects or clamps a negative cost.
\<close>

theorem cost_usd_is_raw_cost:
  "(normalize_one float_str str_of prov row = Inr r \<longrightarrow>
      py_float float_str (dict_get row (cost_field prov) (PFloat 0)) = Inr (cost_usd r)) \<and>
   (\<forall>r' \<in> set (normalize_batch float_str str_of rows prov).
      \<exists>row' \<in> set rows.
        py_float float_str (dict_get row' (cost_field prov) (PFloat 0)) = Inr (cost_usd r'))"
proof (intro conjI impI ballI)
  assume "normalize_one float_str str_of prov row = Inr r"
  then show "py_float float_str (dict_get row (cost_field prov) (PFloat 0)) = Inr (cost_usd r)"
    by (rule normalize_one_cost)
next
  fix r' assume "r' \<in> set (normalize_batch float_str str_of rows prov)"
  then obtain row' where "row' \<in> set rows" and "normalize_one float_str str_of prov row' = Inr r'"
    using normalize_batch_origin by blast
  then show "\<exists>row' \<in> set rows.
      py_float float_str (dict_get row' (cost_field prov) (PFloat 0)) = Inr (cost_usd r')"
    using normalize_one_cost by blast
qed

theorem cost_usd_is_raw_cost_witness:
  "py_float decimal_float (dict_get [(''Cost'', PInt 3)] (cost_field ''azure'') (PFloat 0)) = Inr 3 \<and>
   map_sum id cost_usd (normalize_one decimal_float str_of_text ''azure'' [(''Cost'', PInt 3)]) = Inr 3 \<and>
   map cost_usd (normalize_batch decimal_float str_of_text
      [[(''Cost'', PInt 3)], [(''Cost'', PStr ''oops'')], [(''Cost'', PStr ''-1.5'')]] ''azure'') = [3, - 1.5]"
proof -
  let ?row = "[(''Cost'', PInt 3)]"
  have raw: "py_float decimal_float (dict_get ?row (cost_field ''azure'') (PFloat 0)) = Inr 3"
    by (simp add: cost_field_def dict_get_def)
  have "\<exists>r. normalize_one decimal_float str_of_text ''azure'' ?row = Inr r"
    by (simp add: normalize_one_def normalize_azure_def dict_get_def categorize_service_def
        UnifiedCostRecord_init_def lower_def any_in_def startswith_def Let_def)
  then obtain r where r: "normalize_one decimal_float str_of_text ''azure'' ?row = Inr r" ..
  from cost_usd_is_raw_cost [of decimal_float str_of_text "''azure''" ?row r "[]"] r raw
  have "cost_usd r = 3" by simp
  with r have one: "map_sum id cost_usd (normalize_one decimal_float str_of_text ''azure'' ?row) = Inr 3"
    by simp
  have batch: "map cost_usd (normalize_batch decimal_float str_of_text
      [[(''Cost'', PInt 3)], [(''Cost'', PStr ''oops'')], [(''Cost'', PStr ''-1.5'')]] ''azure'') = [3, - 1.5]"
    by (simp add: normalize_one_def normalize_azure_def dict_get_def categorize_service_def
        UnifiedCostRecord_init_def lower_def any_in_def startswith_def Let_def
        decimal_float_def unsigned_decimal_def digit_of_def)
  from raw one batch show ?thesis by simp
qed

section \<open>Properties of the analysis\<close>

lemma seq_Inl [simp]: "seq (Inl e) f = Inl e"
  by (simp add: seq_def)

lemma seq_Inr [simp]: "seq (Inr x) f = f x"
  by (simp add: seq_def)

lemma seq_eq_Inr: "seq m f = Inr y \<longleftrightarrow> (\<exists>x. m = Inr x \<and> f x = Inr y)"
  by (cases m) simp_all

lemma sum_list_insort_key:
  fixes f :: "'a \<Rightarrow> real"
  shows "sum_list (map f (insort_key g x xs)) = f x + sum_list (map f xs)"
  by (induction xs) simp_all

lemma sum_list_sort_key:
  fixes f :: "'a \<Rightarrow> real"
  shows "sum_list (map f (sort_key g xs)) = sum_list (map f xs)"
  by (induction xs) (simp_all add: sum_list_insort_key)

lemma sum_list_take_drop:
  "sum_list (map f xs) = sum_list (map f (take n xs)) + sum_list (map f (drop n xs))"
proof -
  have "sum_list (map f (take n xs @ drop n xs)) =
        sum_list (map f (take n xs)) + sum_list (map f (drop n xs))"
    by (simp only: map_append sum_list_append)
  then show ?thesis by simp
qed

lemma nzd_Inr [simp]: "no_zero_division (Inr x)"
  by (simp add: no_zero_division_def)

lemma nzd_Inl [simp]: "no_zero_division (Inl e) \<longleftrightarrow> e \<noteq> ZeroDivisionError"
  by (simp add: no_zero_division_def)

lemma nzd_seq:
  "no_zero_division m \<Longrightarrow> (\<And>x. m = Inr x \<Longrightarrow> no_zero_division (f x)) \<Longrightarrow> no_zero_division (seq m f)"
  by (cases m) simp_all

lemma nzd_py_get_or [simp]: "no_zero_division (py_get_or v k d)"
  by (cases v) simp_all

lemma nzd_py_lower [simp]: "no_zero_division (py_lower v)"
  by (cases v) simp_all

lemma nzd_split_once [simp]: "no_zero_division (split_once sep s)"
  by (simp add: split_once_def split: list.splits)

lemma nzd_idle_groups: "no_zero_division (idle_groups rs g)"
  by (induction rs arbitrary: g) simp_all

lemma nzd_has_usage: "no_zero_division (has_usage str_of rs)"
  by (induction rs) (simp_all split: pyval.splits)

lemma nzd_idle_scan: "no_zero_division (idle_scan str_of gs opps)"
proof (induction gs arbitrary: opps)
  case Nil
  show ?case by simp
next
  case (Cons g gs)
  obtain rid rrs where g: "g = (rid, rrs)" by (cases g)
  show ?case
    unfolding g idle_scan.simps Let_def
    by (rule nzd_seq) (auto simp: nzd_has_usage Cons.IH split: list.splits)
qed

lemma nzd_find_idle_resources: "no_zero_division (find_idle_resources str_of rs)"
  unfolding find_idle_resources_def
  by (rule nzd_seq) (simp_all add: nzd_idle_groups nzd_idle_scan)

lemma nzd_over_provisioned_loop: "no_zero_division (over_provisioned_loop rs opps)"
proof (induction rs arbitrary: opps)
  case Nil
  show ?case by simp
next
  case (Cons r rs)
  show ?case
    unfolding over_provisioned_loop.simps
    by (auto intro!: nzd_seq simp: Cons.IH)
qed

lemma nzd_reserved_groups: "no_zero_division (reserved_groups str_of rs g)"
proof (induction rs arbitrary: g)
  case Nil
  show ?case by simp
next
  case (Cons r rs)
  show ?case
    unfolding reserved_groups.simps
    by (auto intro!: nzd_seq simp: Cons.IH)
qed

lemma nzd_reserved_scan: "no_zero_division (reserved_scan gs opps)"
proof (induction gs arbitrary: opps)
  case Nil
  show ?case by simp
next
  case (Cons g gs)
  obtain k rrs where g: "g = (k, rrs)" by (cases g)
  show ?case
    by (auto simp: g Let_def Cons.IH split: list.splits)
qed

lemma nzd_region_groups: "no_zero_division (region_groups str_of rs g)"
  by (induction rs arbitrary: g) simp_all

lemma nzd_price_groups: "no_zero_division (price_groups str_of rs g)"
proof (induction rs arbitrary: g)
  case Nil
  show ?case by simp
next
  case (Cons r rs)
  show ?case
    unfolding price_groups.simps
    by (auto intro!: nzd_seq simp: Cons.IH)
qed

lemma nzd_price_scan: "no_zero_division (price_scan gs opps)"
proof (induction gs arbitrary: opps)
  case Nil
  show ?case by simp
next
  case (Cons g gs)
  obtain k rrs where g: "g = (k, rrs)" by (cases g)
  show ?case
    unfolding g price_scan.simps Let_def
    by (auto intro!: nzd_seq simp: Cons.IH split: option.splits prod.splits)
qed

lemma nzd_spot_loop: "no_zero_division (spot_loop str_of rs opps)"
proof (induction rs arbitrary: opps)
  case Nil
  show ?case by simp
next
  case (Cons r rs)
  show ?case
    unfolding spot_loop.simps Let_def
    by (auto intro!: nzd_seq simp: Cons.IH)
qed

lemma nzd_provider_groups: "no_zero_division (provider_groups rs g)"
  by (induction rs arbitrary: g) simp_all

lemma nzd_summarize_by_category: "no_zero_division (summarize_by_category rs g)"
  by (induction rs arbitrary: g) simp_all

lemma nzd_find_opportunities: "no_zero_division (find_opportunities str_of rs)"
  unfolding find_opportunities_def find_reserved_instance_opportunities_def
    find_region_optimizations_def find_price_change_opportunities_def find_over_provisioned_def
  by (intro nzd_seq nzd_find_idle_resources nzd_over_provisioned_loop nzd_reserved_groups
      nzd_reserved_scan nzd_region_groups nzd_price_groups nzd_price_scan nzd_spot_loop nzd_Inr)

lemma analyze_costs_nonempty:
  assumes "records \<noteq> []" and "analyze_costs str_of records = Inr res"
  shows "\<exists>found. find_opportunities str_of records = Inr found \<and>
           total_cost res = total_of records \<and>
           total_potential_savings res = Some (sum_list (map potential_savings found)) \<and>
           opportunities res = take 20 (sort_by_savings found) \<and>
           savings_percentage res =
             Some (if total_of records > 0
                   then sum_list (map potential_savings found) / total_of records * 100 else 0)"
proof -
  from assms obtain by_prov found pct by_cat where
    found: "find_opportunities str_of records = Inr found" and
    pct: "(if total_of records > 0
           then seq (py_div (sum_list (map potential_savings (sort_by_savings found))) (total_of records))
                  (\<lambda>q. Inr (q * 100))
           else Inr 0) = Inr pct" and
    res: "res = \<lparr> total_cost = total_of records,
                  total_potential_savings = Some (sum_list (map potential_savings (sort_by_savings found))),
                  savings_percentage = Some pct,
                  opportunities = take 20 (sort_by_savings found),
                  summary = Some \<lparr> by_provider = map (\<lambda>(p, rs). (p, total_of rs)) by_prov,
                                   by_category = by_cat,
                                   total_resources = length records \<rparr> \<rparr>"
    by (auto simp: analyze_costs_def Let_def seq_eq_Inr)
  have sorted_sum: "sum_list (map potential_savings (sort_by_savings found)) =
                    sum_list (map potential_savings found)"
    by (simp add: sort_by_savings_def sum_list_sort_key)
  from pct have "pct = (if total_of records > 0
                   then sum_list (map potential_savings found) / total_of records * 100 else 0)"
    by (auto simp: py_div_def sorted_sum split: if_splits)
  with found res sorted_sum show ?thesis by simp
qed

lemma typed_metrics:
  "typed_record r \<Longrightarrow> \<exists>d. usage_metrics r = PDict d \<and> (\<exists>s. dict_get d ''instance_type'' (PStr []) = PStr s)"
  by (auto simp: typed_record_def split: pyval.splits)

lemma group_add_inv:
  "list_all (\<lambda>(k, vs). Q k \<and> vs \<noteq> [] \<and> list_all P vs) g \<Longrightarrow> Q k0 \<Longrightarrow> P v \<Longrightarrow>
   list_all (\<lambda>(k, vs). Q k \<and> vs \<noteq> [] \<and> list_all P vs) (group_add same k0 v g)"
  by (induction g) auto

lemma idle_groups_returns:
  "list_all typed_record rs \<Longrightarrow>
   list_all (\<lambda>(k, vs). True \<and> vs \<noteq> [] \<and> list_all typed_record vs) g \<Longrightarrow>
   \<exists>g'. idle_groups rs g = Inr g' \<and>
        list_all (\<lambda>(k, vs). True \<and> vs \<noteq> [] \<and> list_all typed_record vs) g'"
proof (induction rs arbitrary: g)
  case Nil
  then show ?case by simp
next
  case (Cons r rs)
  from Cons.prems have r: "typed_record r" and rest: "list_all typed_record rs" by simp_all
  have ok: "list_all (\<lambda>(k, vs). True \<and> vs \<noteq> [] \<and> list_all typed_record vs)
              (group_add key_eq (resource_id r) r g)"
    using Cons.prems(2) r by (intro group_add_inv) simp_all
  from r have h: "hashable (resource_id r)" by (simp add: typed_record_def)
  show ?case
    using Cons.IH [OF rest ok] Cons.IH [OF rest Cons.prems(2)] h by simp
qed

lemma has_usage_returns:
  "list_all typed_record rs \<Longrightarrow> \<exists>b. has_usage str_of rs = Inr b"
proof (induction rs)
  case Nil
  show ?case by auto
next
  case (Cons r rs)
  then obtain d where "usage_metrics r = PDict d"
    using typed_metrics [of r] by auto
  with Cons show ?case by auto
qed

lemma idle_scan_returns:
  "list_all (\<lambda>(k, vs). True \<and> vs \<noteq> [] \<and> list_all typed_record vs) g \<Longrightarrow>
   \<exists>found. idle_scan str_of g opps = Inr found"
proof (induction g arbitrary: opps)
  case Nil
  show ?case by simp
next
  case (Cons entry g)
  obtain rid rrs where entry: "entry = (rid, rrs)" by (cases entry)
  with Cons.prems have ne: "rrs \<noteq> []" and ty: "list_all typed_record rrs" by auto
  from has_usage_returns [OF ty] obtain b where b: "has_usage str_of rrs = Inr b" by blast
  from ne obtain r0 others where rrs: "rrs = r0 # others" by (cases rrs) auto
  from Cons.prems have "list_all (\<lambda>(k, vs). True \<and> vs \<noteq> [] \<and> list_all typed_record vs) g" by simp
  then have IH: "\<And>acc. \<exists>found. idle_scan str_of g acc = Inr found"
    using Cons.IH by blast
  show ?case
    unfolding entry idle_scan.simps Let_def b seq_def
    using IH by (simp add: rrs)
qed

lemma over_provisioned_loop_returns:
  "list_all typed_record rs \<Longrightarrow> \<exists>found. over_provisioned_loop rs opps = Inr found"
proof (induction rs arbitrary: opps)
  case Nil
  show ?case by simp
next
  case (Cons r rs)
  then obtain d s where "usage_metrics r = PDict d" "dict_get d ''instance_type'' (PStr []) = PStr s"
    using typed_metrics [of r] by auto
  with Cons show ?case by (simp add: seq_def)
qed

lemma reserved_groups_returns:
  "list_all typed_record rs \<Longrightarrow> \<exists>g'. reserved_groups str_of rs g = Inr g'"
proof (induction rs arbitrary: g)
  case Nil
  show ?case by simp
next
  case (Cons r rs)
  then obtain d where "usage_metrics r = PDict d"
    using typed_metrics [of r] by auto
  with Cons show ?case by (simp add: seq_def)
qed

lemma reserved_scan_returns: "\<exists>found. reserved_scan g opps = Inr found"
proof (induction g arbitrary: opps)
  case Nil
  show ?case by simp
next
  case (Cons entry g)
  obtain k rrs where entry: "entry = (k, rrs)" by (cases entry)
  show ?case
    using Cons.IH by (cases rrs) (simp_all add: entry Let_def)
qed

lemma region_groups_returns:
  "list_all typed_record rs \<Longrightarrow> \<exists>g'. region_groups str_of rs g = Inr g'"
  by (induction rs arbitrary: g) (simp_all add: typed_record_def)

lemma price_groups_returns:
  "list_all typed_record rs \<Longrightarrow>
   list_all (\<lambda>(k, vs). CHR '':'' \<in> set k \<and> vs \<noteq> [] \<and> list_all typed_record vs) g \<Longrightarrow>
   \<exists>g'. price_groups str_of rs g = Inr g' \<and>
        list_all (\<lambda>(k, vs). CHR '':'' \<in> set k \<and> vs \<noteq> [] \<and> list_all typed_record vs) g'"
proof (induction rs arbitrary: g)
  case Nil
  then show ?case by simp
next
  case (Cons r rs)
  from Cons.prems have r: "typed_record r" and rest: "list_all typed_record rs" by simp_all
  from r obtain d where d: "usage_metrics r = PDict d"
    using typed_metrics [of r] by auto
  let ?k = "str_of (cloud_provider r) @ '':'' @ str_of (dict_get d ''instance_type'' PNone)"
  have ok: "list_all (\<lambda>(k, vs). CHR '':'' \<in> set k \<and> vs \<noteq> [] \<and> list_all typed_record vs)
              (group_add (=) ?k r g)"
    using Cons.prems(2) r by (intro group_add_inv) simp_all
  show ?case
    using Cons.IH [OF rest ok] Cons.IH [OF rest Cons.prems(2)] by (simp add: d seq_def)
qed

lemma split_once_returns: "sep \<in> set s \<Longrightarrow> \<exists>p. split_once sep s = Inr p"
proof -
  assume "sep \<in> set s"
  then have "dropWhile (\<lambda>c. c \<noteq> sep) s \<noteq> []"
    by (simp add: dropWhile_eq_Nil_conv)
  then show ?thesis
    by (cases "dropWhile (\<lambda>c. c \<noteq> sep) s") (simp_all add: split_once_def)
qed

lemma price_scan_returns:
  "list_all (\<lambda>(k, vs). CHR '':'' \<in> set k \<and> vs \<noteq> [] \<and> list_all typed_record vs) g \<Longrightarrow>
   \<exists>found. price_scan g opps = Inr found"
proof (induction g arbitrary: opps)
  case Nil
  show ?case by simp
next
  case (Cons entry g)
  obtain k rrs where entry: "entry = (k, rrs)" by (cases entry)
  with Cons.prems have "CHR '':'' \<in> set k" by simp
  then obtain a b where ab: "split_once CHR '':'' k = Inr (a, b)"
    using split_once_returns by fastforce
  from Cons.prems have "list_all (\<lambda>(k, vs). CHR '':'' \<in> set k \<and> vs \<noteq> [] \<and> list_all typed_record vs) g"
    by simp
  then have IH: "\<And>acc. \<exists>found. price_scan g acc = Inr found"
    using Cons.IH by blast
  show ?case
    using IH by (simp add: entry Let_def ab seq_def split: option.splits)
qed

lemma spot_loop_returns:
  "list_all typed_record rs \<Longrightarrow> \<exists>found. spot_loop str_of rs opps = Inr found"
proof (induction rs arbitrary: opps)
  case Nil
  show ?case by simp
next
  case (Cons r rs)
  then obtain d where "usage_metrics r = PDict d"
    using typed_metrics [of r] by auto
  with Cons show ?case by (simp add: seq_def Let_def)
qed

lemma provider_groups_returns:
  "list_all typed_record rs \<Longrightarrow> \<exists>g'. provider_groups rs g = Inr g'"
  by (induction rs arbitrary: g) (simp_all add: typed_record_def)

lemma summarize_by_category_returns:
  "list_all typed_record rs \<Longrightarrow> \<exists>g'. summarize_by_category rs g = Inr g'"
  by (induction rs arbitrary: g) (simp_all add: typed_record_def)

lemma find_opportunities_returns:
  assumes "list_all typed_record rs"
  shows "\<exists>found. find_opportunities str_of rs = Inr found"
proof -
  from idle_groups_returns [OF assms, of "[]"] obtain g1 where
    g1: "idle_groups rs [] = Inr g1"
      "list_all (\<lambda>(k, vs). True \<and> vs \<noteq> [] \<and> list_all typed_record vs) g1"
    by auto
  from idle_scan_returns [OF g1(2)] obtain o1 where o1: "idle_scan str_of g1 [] = Inr o1" by blast
  from over_provisioned_loop_returns [OF assms] obtain o2 where
    o2: "over_provisioned_loop rs [] = Inr o2" by blast
  from reserved_groups_returns [OF assms] obtain g4 where g4: "reserved_groups str_of rs [] = Inr g4"
    by blast
  from reserved_scan_returns obtain o4 where o4: "reserved_scan g4 [] = Inr o4" by blast
  from region_groups_returns [OF assms] obtain g5 where g5: "region_groups str_of rs [] = Inr g5"
    by blast
  from price_groups_returns [OF assms, of "[]"] obtain g6 where
    g6: "price_groups str_of rs [] = Inr g6"
      "list_all (\<lambda>(k, vs). CHR '':'' \<in> set k \<and> vs \<noteq> [] \<and> list_all typed_record vs) g6"
    by auto
  from price_scan_returns [OF g6(2)] obtain o6 where o6: "price_scan g6 [] = Inr o6" by blast
  from spot_loop_returns [OF assms] obtain o7 where o7: "spot_loop str_of rs o6 = Inr o7" by blast
  show ?thesis
    by (simp add: find_opportunities_def find_idle_resources_def find_over_provisioned_def
        find_reserved_instance_opportunities_def find_region_optimizations_def
        find_price_change_opportunities_def seq_def g1 o1 o2 g4 o4 g5 g6 o6 o7)
qed

lemma analyze_costs_returns:
  assumes "list_all typed_record rs"
  shows "\<exists>res. analyze_costs str_of rs = Inr res"
proof (cases "rs = []")
  case True
  then show ?thesis by (simp add: analyze_costs_def)
next
  case False
  from provider_groups_returns [OF assms] obtain bp where bp: "provider_groups rs [] = Inr bp" by blast
  from find_opportunities_returns [OF assms] obtain found where
    found: "find_opportunities str_of rs = Inr found" by blast
  from summarize_by_category_returns [OF assms] obtain bc where
    bc: "summarize_by_category rs [] = Inr bc" by blast
  show ?thesis
    using False by (simp add: analyze_costs_def Let_def seq_def bp found bc py_div_def)
qed

text \<open>
  Claim C1, as stated, fails. Twenty-one storage records of cost 10 each, with no tags
  and an empty id, give twenty-one \<^verbatim>\<open>unattached_storage\<close> opportunities of 10:
  \<^verbatim>\<open>total_potential_savings\<close> is 210, while the twenty opportunities returned sum to 200.
\<close>

theorem total_savings_over_top20_counterexample:
  "map_sum id (\<lambda>res. (total_potential_savings res, length (opportunities res),
                       sum_list (map potential_savings (opportunities res))))
     (analyze_costs str_of_text
        (replicate 21
           \<lparr> resource_id = PStr [], cloud_provider = PStr ''aws'',
             service_category = PStr ''storage'', resource_type = PStr ''storage'',
             cost_usd = 10, usage_metrics = PDict [], region = PStr ''us-east-1'',
             tags = PDict [], date = PStr ''2024-01-01'', optimization_potential = PFloat 0 \<rparr>)) =
   Inr (Some 210, 20, 200) \<and>
   Some (210::real) \<noteq> Some 200"
  by (simp add: eval_nat_numeral analyze_costs_def find_opportunities_def find_idle_resources_def
      find_over_provisioned_def find_unattached_storage_def find_reserved_instance_opportunities_def
      find_region_optimizations_def find_price_change_opportunities_def
      sort_by_savings_def py_div_def total_of_def key_eq_def str_of_text_def lower_def startswith_def
      Let_def)

text \<open>
  Claim C1, amended. For a non-empty list, \<^verbatim>\<open>total_potential_savings\<close> is the sum of
  \<^verbatim>\<open>potential_savings\<close> over all the opportunities the six heuristics found, that is
  the sum over the twenty returned plus the sum over those the truncation dropped. It is
  the sum over the returned list whenever at most twenty were found. The analysis returns
  on every list of typed records.
\<close>

theorem total_savings_is_sum_of_all:
  assumes "records \<noteq> []"
  shows "(list_all typed_record records \<longrightarrow> (\<exists>res. analyze_costs str_of records = Inr res)) \<and>
         (analyze_costs str_of records = Inr res \<longrightarrow>
            (\<exists>found. find_opportunities str_of records = Inr found \<and>
               opportunities res = take 20 (sort_by_savings found) \<and>
               total_potential_savings res = Some (sum_list (map potential_savings found)) \<and>
               total_potential_savings res =
                 Some (sum_list (map potential_savings (opportunities res)) +
                       sum_list (map potential_savings (drop 20 (sort_by_savings found)))) \<and>
               (length found \<le> 20 \<longrightarrow>
                  total_potential_savings res =
                    Some (sum_list (map potential_savings (opportunities res))))))"
proof (intro conjI impI)
  assume "list_all typed_record records"
  then show "\<exists>res. analyze_costs str_of records = Inr res"
    by (rule analyze_costs_returns)
next
  assume run: "analyze_costs str_of records = Inr res"
  from analyze_costs_nonempty [OF assms run] obtain found where
    found: "find_opportunities str_of records = Inr found" and
    tps: "total_potential_savings res = Some (sum_list (map potential_savings found))" and
    opps: "opportunities res = take 20 (sort_by_savings found)"
    by blast
  have sorted_sum: "sum_list (map potential_savings (sort_by_savings found)) =
                    sum_list (map potential_savings found)"
    by (simp add: sort_by_savings_def sum_list_sort_key)
  have split: "sum_list (map potential_savings found) =
      sum_list (map potential_savings (take 20 (sort_by_savings found))) +
      sum_list (map potential_savings (drop 20 (sort_by_savings found)))"
    using sum_list_take_drop [of potential_savings "sort_by_savings found" 20] sorted_sum by simp
  have short: "length found \<le> 20 \<Longrightarrow> take 20 (sort_by_savings found) = sort_by_savings found"
    by (simp add: sort_by_savings_def)
  from found tps opps split short sorted_sum
  show "\<exists>found. find_opportunities str_of records = Inr found \<and>
               opportunities res = take 20 (sort_by_savings found) \<and>
               total_potential_savings res = Some (sum_list (map potential_savings found)) \<and>
               total_potential_savings res =
                 Some (sum_list (map potential_savings (opportunities res)) +
                       sum_list (map potential_savings (drop 20 (sort_by_savings found)))) \<and>
               (length found \<le> 20 \<longrightarrow>
                  total_potential_savings res =
                    Some (sum_list (map potential_savings (opportunities res))))"
    by auto
qed

theorem total_savings_is_sum_of_all_witness:
  "[\<lparr> resource_id = PStr ''vol-1'', cloud_provider = PStr ''aws'',
       service_category = PStr ''storage'', resource_type = PStr ''storage'',
       cost_usd = 50, usage_metrics = PDict [], region = PStr ''us-east-1'',
       tags = PDict [], date = PStr ''2024-01-01'', optimization_potential = PFloat 0 \<rparr>] \<noteq> [] \<and>
   list_all typed_record
     [\<lparr> resource_id = PStr ''vol-1'', cloud_provider = PStr ''aws'',
         service_category = PStr ''storage'', resource_type = PStr ''storage'',
         cost_usd = 50, usage_metrics = PDict [], region = PStr ''us-east-1'',
         tags = PDict [], date = PStr ''2024-01-01'', optimization_potential = PFloat 0 \<rparr>] \<and>
   (\<exists>res found.
      analyze_costs str_of_text
        [\<lparr> resource_id = PStr ''vol-1'', cloud_provider = PStr ''aws'',
           service_category = PStr ''storage'', resource_type = PStr ''storage'',
           cost_usd = 50, usage_metrics = PDict [], region = PStr ''us-east-1'',
           tags = PDict [], date = PStr ''2024-01-01'', optimization_potential = PFloat 0 \<rparr>] = Inr res \<and>
      find_opportunities str_of_text
        [\<lparr> resource_id = PStr ''vol-1'', cloud_provider = PStr ''aws'',
           service_category = PStr ''storage'', resource_type = PStr ''storage'',
           cost_usd = 50, usage_metrics = PDict [], region = PStr ''us-east-1'',
           tags = PDict [], date = PStr ''2024-01-01'', optimization_potential = PFloat 0 \<rparr>] = Inr found \<and>
      map potential_savings found = [45, 50] \<and>
      total_potential_savings res = Some 95 \<and>
      total_potential_savings res = Some (sum_list (map potential_savings (opportunities res))))"
proof -
  let ?rs = "[\<lparr> resource_id = PStr ''vol-1'', cloud_provider = PStr ''aws'',
       service_category = PStr ''storage'', resource_type = PStr ''storage'',
       cost_usd = 50, usage_metrics = PDict [], region = PStr ''us-east-1'',
       tags = PDict [], date = PStr ''2024-01-01'', optimization_potential = PFloat 0 \<rparr>]"
  have ne: "?rs \<noteq> []" by simp
  have typed: "list_all typed_record ?rs"
    by (simp add: typed_record_def dict_get_def)
  from total_savings_is_sum_of_all [OF ne, of str_of_text] typed
  obtain res where res: "analyze_costs str_of_text ?rs = Inr res" by blast
  from total_savings_is_sum_of_all [OF ne, of str_of_text res] res obtain found where
    found: "find_opportunities str_of_text ?rs = Inr found" and
    tps: "total_potential_savings res = Some (sum_list (map potential_savings found))" and
    short: "length found \<le> 20 \<longrightarrow>
      total_potential_savings res = Some (sum_list (map potential_savings (opportunities res)))"
    by blast
  have "map_sum id (map potential_savings) (find_opportunities str_of_text ?rs) = Inr [45, 50]"
    by (simp add: find_opportunities_def find_idle_resources_def
      find_over_provisioned_def find_unattached_storage_def find_reserved_instance_opportunities_def
      find_region_optimizations_def find_price_change_opportunities_def
      total_of_def key_eq_def str_of_text_def lower_def startswith_def mentions_usage_def Let_def)
  with found have savings: "map potential_savings found = [45, 50]" by simp
  then have "length found = 2"
    by (metis length_map length_Cons list.size(3) numeral_2_eq_2)
  with short have eq: "total_potential_savings res = Some (sum_list (map potential_savings (opportunities res)))"
    by simp
  from tps savings have total: "total_potential_savings res = Some 95" by simp
  show ?thesis
  proof (intro conjI exI)
    show "?rs \<noteq> []" by simp
    show "list_all typed_record ?rs" by (rule typed)
    show "analyze_costs str_of_text ?rs = Inr res" by (rule res)
    show "find_opportunities str_of_text ?rs = Inr found" by (rule found)
    show "map potential_savings found = [45, 50]" by (rule savings)
    show "total_potential_savings res = Some 95" by (rule total)
    show "total_potential_savings res = Some (sum_list (map potential_savings (opportunities res)))"
      by (rule eq)
  qed
qed

text \<open>
  Claim C2, as stated, fails on the empty list: the dict returned has no
  \<^verbatim>\<open>savings_percentage\<close> entry, so there is no returned percentage equal to 0.
\<close>

theorem empty_analysis_counterexample:
  "analyze_costs str_of_text [] =
     Inr \<lparr> total_cost = 0, total_potential_savings = None, savings_percentage = None,
           opportunities = [], summary = None \<rparr> \<and>
   savings_percentage \<lparr> total_cost = 0, total_potential_savings = None, savings_percentage = None,
           opportunities = [], summary = None \<rparr> \<noteq> Some 0"
  by (simp add: analyze_costs_def)

text \<open>
  Claim C2, amended. For a non-empty list whose costs sum to 0 (or less),
  \<^verbatim>\<open>analyze_costs\<close>, when it returns, returns \<^verbatim>\<open>savings_percentage = 0\<close>. For the
  empty list it returns \<^verbatim>\<open>total_cost = 0.0\<close>, no opportunities and neither
  \<^verbatim>\<open>total_potential_savings\<close> nor \<^verbatim>\<open>savings_percentage\<close>. On no input does it raise
  \<^verbatim>\<open>ZeroDivisionError\<close>, and on every list of typed records it returns.
\<close>

theorem savings_percentage_guarded:
  "(records \<noteq> [] \<longrightarrow> analyze_costs str_of records = Inr res \<longrightarrow> total_of records \<le> 0 \<longrightarrow>
      total_cost res = total_of records \<and> savings_percentage res = Some 0) \<and>
   (records = [] \<longrightarrow>
      analyze_costs str_of records =
        Inr \<lparr> total_cost = 0, total_potential_savings = None, savings_percentage = None,
              opportunities = [], summary = None \<rparr>) \<and>
   analyze_costs str_of records \<noteq> Inl ZeroDivisionError \<and>
   (list_all typed_record records \<longrightarrow> (\<exists>res'. analyze_costs str_of records = Inr res'))"
proof (intro conjI impI)
  assume "records \<noteq> []" and "analyze_costs str_of records = Inr res" and le: "total_of records \<le> 0"
  from analyze_costs_nonempty [OF this(1,2)] le
  show "total_cost res = total_of records" and "savings_percentage res = Some 0"
    by auto
next
  assume "records = []"
  then show "analyze_costs str_of records =
        Inr \<lparr> total_cost = 0, total_potential_savings = None, savings_percentage = None,
              opportunities = [], summary = None \<rparr>"
    by (simp add: analyze_costs_def)
next
  have "no_zero_division (analyze_costs str_of records)"
    unfolding analyze_costs_def Let_def
    by (auto intro!: nzd_seq nzd_provider_groups nzd_find_opportunities nzd_summarize_by_category
        simp: py_div_def)
  then show "analyze_costs str_of records \<noteq> Inl ZeroDivisionError"
    by (simp add: no_zero_division_def)
next
  assume "list_all typed_record records"
  then show "\<exists>res'. analyze_costs str_of records = Inr res'"
    by (rule analyze_costs_returns)
qed

theorem savings_percentage_guarded_witness:
  "[\<lparr> resource_id = PStr ''i-1'', cloud_provider = PStr ''aws'',
       service_category = PStr ''compute'', resource_type = PStr ''vm'',
       cost_usd = 0, usage_metrics = PDict [(''instance_type'', PStr ''m5.xlarge'')],
       region = PStr ''us-east-1'', tags = PDict [], date = PStr ''2024-01-01'',
       optimization_potential = PFloat 0 \<rparr>] \<noteq> [] \<and>
   list_all typed_record
     [\<lparr> resource_id = PStr ''i-1'', cloud_provider = PStr ''aws'',
         service_category = PStr ''compute'', resource_type = PStr ''vm'',
         cost_usd = 0, usage_metrics = PDict [(''instance_type'', PStr ''m5.xlarge'')],
         region = PStr ''us-east-1'', tags = PDict [], date = PStr ''2024-01-01'',
         optimization_potential = PFloat 0 \<rparr>] \<and>
   total_of
     [\<lparr> resource_id = PStr ''i-1'', cloud_provider = PStr ''aws'',
        service_category = PStr ''compute'', resource_type = PStr ''vm'',
        cost_usd = 0, usage_metrics = PDict [(''instance_type'', PStr ''m5.xlarge'')],
        region = PStr ''us-east-1'', tags = PDict [], date = PStr ''2024-01-01'',
        optimization_potential = PFloat 0 \<rparr>] \<le> 0 \<and>
   (\<exists>res.
      analyze_costs str_of_text
        [\<lparr> resource_id = PStr ''i-1'', cloud_provider = PStr ''aws'',
           service_category = PStr ''compute'', resource_type = PStr ''vm'',
           cost_usd = 0, usage_metrics = PDict [(''instance_type'', PStr ''m5.xlarge'')],
           region = PStr ''us-east-1'', tags = PDict [], date = PStr ''2024-01-01'',
           optimization_potential = PFloat 0 \<rparr>] = Inr res \<and>
      total_cost res = 0 \<and> savings_percentage res = Some 0) \<and>
   map_sum id savings_percentage (analyze_costs str_of_text []) = Inr None"
proof -
  let ?rs = "[\<lparr> resource_id = PStr ''i-1'', cloud_provider = PStr ''aws'',
       service_category = PStr ''compute'', resource_type = PStr ''vm'',
       cost_usd = 0, usage_metrics = PDict [(''instance_type'', PStr ''m5.xlarge'')],
       region = PStr ''us-east-1'', tags = PDict [], date = PStr ''2024-01-01'',
       optimization_potential = PFloat 0 \<rparr>]"
  have typed: "list_all typed_record ?rs"
    by (simp add: typed_record_def dict_get_def)
  from savings_percentage_guarded [of ?rs str_of_text] typed
  obtain res where res: "analyze_costs str_of_text ?rs = Inr res" by blast
  have ne: "?rs \<noteq> []" by simp
  have zero: "total_of ?rs \<le> 0" by (simp add: total_of_def)
  from savings_percentage_guarded [of ?rs str_of_text res] ne res zero
  have "total_cost res = total_of ?rs" and pct: "savings_percentage res = Some 0" by blast+
  then have tc: "total_cost res = 0" by (simp add: total_of_def)
  from savings_percentage_guarded [of "[]" str_of_text]
  have "map_sum id savings_percentage (analyze_costs str_of_text []) = Inr None" by simp
  then have empty: "map_sum id savings_percentage (analyze_costs str_of_text []) = Inr None" .
  show ?thesis
  proof (intro conjI exI)
    show "?rs \<noteq> []" by simp
    show "list_all typed_record ?rs" by (rule typed)
    show "total_of ?rs \<le> 0" by (rule zero)
    show "analyze_costs str_of_text ?rs = Inr res" by (rule res)
    show "total_cost res = 0" by (rule tc)
    show "savings_percentage res = Some 0" by (rule pct)
    show "map_sum id savings_percentage (analyze_costs str_of_text []) = Inr None" by (rule empty)
  qed
qed

end
